theory Spec2Isabelle
  imports Complex_Main "HOL-Library.AList" "HOL-Library.Log_Nat"
begin

section \<open>Python values\<close>

text \<open>
  The providers work on \<^verbatim>\<open>Dict[str, Any]\<close>: the caller's parameters and the
  JSON document returned by the upstream service. The values are the JSON-shaped
  Python values. A dictionary is an association list in insertion order; a key is
  looked up with \<^const>\<open>map_of\<close>.

  A Python float is an IEEE double: a finite value (every finite double is a
  rational number, embedded in the reals here), one of the two infinities, or NaN.
  A decimal literal of the source (\<^verbatim>\<open>0.7\<close>) stands for the real number it
  denotes.
\<close>

datatype pyfloat = Finite real | PosInf | NegInf | NaN

datatype pyval =
    PNone
  | PBool bool
  | PInt int
  | PFloat pyfloat
  | PStr string
  | PList "pyval list"
  | PDict "(string \<times> pyval) list"

type_synonym pydict = "(string \<times> pyval) list"

text \<open>
  The exceptions. \<open>ValueError msg\<close> is a \<^verbatim>\<open>ValueError\<close> with its message: a
  \<^verbatim>\<open>raise ValueError(msg)\<close> of the source, or the interpreter's refusal to write
  out an int that is too long. The others are raised by Python's built-in operations
  (\<^verbatim>\<open>int()\<close>, \<^verbatim>\<open>float()\<close>, \<^verbatim>\<open>in\<close>, indexing, attribute access,
  \<^verbatim>\<open>repr()\<close>); their message texts are not modelled.
\<close>

datatype error =
    ValueError string
  | ConversionValueError
  | TypeError
  | OverflowError
  | AttributeError
  | KeyError
  | RecursionError

definition bind_exc :: "error + 'a \<Rightarrow> ('a \<Rightarrow> error + 'b) \<Rightarrow> error + 'b" where
  "bind_exc r f = (case r of Inl e \<Rightarrow> Inl e | Inr x \<Rightarrow> f x)"

subsection \<open>Dictionary operations\<close>

definition has_key :: "pydict \<Rightarrow> string \<Rightarrow> bool" where
  \<comment> \<open>\<^verbatim>\<open>k in d\<close>\<close>
  "has_key d k = (map_of d k \<noteq> None)"

definition setitem :: "pydict \<Rightarrow> string \<Rightarrow> pyval \<Rightarrow> pydict" where
  \<comment> \<open>\<^verbatim>\<open>d[k] = x\<close>: an existing key keeps its place, a new key goes last\<close>
  "setitem d k x = AList.update k x d"

definition delitem :: "pydict \<Rightarrow> string \<Rightarrow> pydict" where
  \<comment> \<open>\<^verbatim>\<open>del d[k]\<close>, used only where the key is known to be present\<close>
  "delitem d k = AList.delete k d"

definition get_or :: "pydict \<Rightarrow> string \<Rightarrow> pyval \<Rightarrow> pyval" where
  \<comment> \<open>\<^verbatim>\<open>d.get(k, default)\<close>\<close>
  "get_or d k dflt = (case map_of d k of None \<Rightarrow> dflt | Some x \<Rightarrow> x)"

definition getitem :: "pydict \<Rightarrow> string \<Rightarrow> error + pyval" where
  \<comment> \<open>\<^verbatim>\<open>d[k]\<close>\<close>
  "getitem d k = (case map_of d k of None \<Rightarrow> Inl KeyError | Some x \<Rightarrow> Inr x)"

subsection \<open>Float comparison, \<^verbatim>\<open>min\<close> and \<^verbatim>\<open>max\<close>\<close>

fun flt :: "pyfloat \<Rightarrow> pyfloat \<Rightarrow> bool" where
  \<comment> \<open>\<^verbatim>\<open>a < b\<close> on floats: every comparison with NaN is false\<close>
  "flt NaN _ = False"
| "flt _ NaN = False"
| "flt (Finite a) (Finite b) = (a < b)"
| "flt (Finite a) PosInf = True"
| "flt (Finite a) NegInf = False"
| "flt PosInf _ = False"
| "flt NegInf NegInf = False"
| "flt NegInf _ = True"

definition py_min :: "('a \<Rightarrow> 'a \<Rightarrow> bool) \<Rightarrow> 'a \<Rightarrow> 'a \<Rightarrow> 'a" where
  \<comment> \<open>\<^verbatim>\<open>min(a, b)\<close>: the first argument stays unless the second is smaller\<close>
  "py_min lt a b = (if lt b a then b else a)"

definition py_max :: "('a \<Rightarrow> 'a \<Rightarrow> bool) \<Rightarrow> 'a \<Rightarrow> 'a \<Rightarrow> 'a" where
  \<comment> \<open>\<^verbatim>\<open>max(a, b)\<close>: the first argument stays unless the second is greater\<close>
  "py_max lt a b = (if lt a b then b else a)"

subsection \<open>The conversions \<^verbatim>\<open>int()\<close>, \<^verbatim>\<open>float()\<close> and \<^verbatim>\<open>bool()\<close>\<close>

text \<open>
  Python's parsers of numeric strings are built into the interpreter; they are
  parameters of the model. \<open>None\<close> is a string the parser rejects. The third
  parameter is what is left of the interpreter's recursion limit when a value is
  formatted: the number of nested calls of \<^verbatim>\<open>repr()\<close> that can still be made.
\<close>

record builtins =
  str_to_int :: "string \<Rightarrow> int option"
  str_to_float :: "string \<Rightarrow> pyfloat option"
  repr_depth :: nat

definition float_of_int :: "int \<Rightarrow> error + pyfloat" where
  \<comment> \<open>an int of at most 53 bits is exact; a longer one is rounded to 53 bits,
      half to even, and fails from \<open>2 ^ 1024\<close> on\<close>
  "float_of_int i =
     (let a = \<bar>i\<bar>; n = nat (bitlen a) in
      if n \<le> 53 then Inr (Finite (of_int i))
      else
        let e = n - 53;
            q = a div 2 ^ e;
            r = a mod 2 ^ e;
            half = 2 ^ (e - 1);
            q' = (if half < r \<or> (r = half \<and> odd q) then q + 1 else q);
            m = q' * 2 ^ e
        in if 2 ^ 1024 \<le> m then Inl OverflowError
           else Inr (Finite (of_int (sgn i * m))))"

definition trunc :: "real \<Rightarrow> int" where
  "trunc r = (if 0 \<le> r then \<lfloor>r\<rfloor> else \<lceil>r\<rceil>)"

fun py_int :: "builtins \<Rightarrow> pyval \<Rightarrow> error + int" where
  "py_int bi (PInt i) = Inr i"
| "py_int bi (PBool b) = Inr (if b then 1 else 0)"
| "py_int bi (PFloat (Finite r)) = Inr (trunc r)"
| "py_int bi (PFloat NaN) = Inl ConversionValueError"
| "py_int bi (PFloat PosInf) = Inl OverflowError"
| "py_int bi (PFloat NegInf) = Inl OverflowError"
| "py_int bi (PStr s) =
     (case str_to_int bi s of None \<Rightarrow> Inl ConversionValueError | Some i \<Rightarrow> Inr i)"
| "py_int bi PNone = Inl TypeError"
| "py_int bi (PList xs) = Inl TypeError"
| "py_int bi (PDict d) = Inl TypeError"

fun py_float :: "builtins \<Rightarrow> pyval \<Rightarrow> error + pyfloat" where
  "py_float bi (PFloat f) = Inr f"
| "py_float bi (PInt i) = float_of_int i"
| "py_float bi (PBool b) = Inr (Finite (if b then 1 else 0))"
| "py_float bi (PStr s) =
     (case str_to_float bi s of None \<Rightarrow> Inl ConversionValueError | Some f \<Rightarrow> Inr f)"
| "py_float bi PNone = Inl TypeError"
| "py_float bi (PList xs) = Inl TypeError"
| "py_float bi (PDict d) = Inl TypeError"

fun py_bool :: "pyval \<Rightarrow> bool" where
  \<comment> \<open>truth value: \<^verbatim>\<open>bool(x)\<close>, \<^verbatim>\<open>if x:\<close>\<close>
  "py_bool PNone = False"
| "py_bool (PBool b) = b"
| "py_bool (PInt i) = (i \<noteq> 0)"
| "py_bool (PFloat (Finite r)) = (r \<noteq> 0)"
| "py_bool (PFloat f) = True"
| "py_bool (PStr s) = (s \<noteq> [])"
| "py_bool (PList xs) = (xs \<noteq> [])"
| "py_bool (PDict d) = (d \<noteq> [])"

subsection \<open>Formatting a value\<close>

text \<open>
  An f-string formats a dictionary with \<^verbatim>\<open>repr()\<close>, which calls itself on
  every key and every value, in the order of the dictionary. It fails in two ways:
  with a \<^verbatim>\<open>ValueError\<close> on an int of more than 4300 decimal digits, the
  interpreter's default limit for writing out an int; and with a
  \<^verbatim>\<open>RecursionError\<close> when the values are nested deeper than the recursion limit
  allows. The first failure met is the one raised. \<open>None\<close> is a value that
  has been formatted.
\<close>

definition max_str_digits :: nat where
  \<comment> \<open>the default of \<^verbatim>\<open>sys.get_int_max_str_digits()\<close>\<close>
  "max_str_digits = 4300"

definition digits_msg :: string where
  "digits_msg = ''Exceeds the limit (4300 digits) for integer string conversion; ''
                @ ''use sys.set_int_max_str_digits() to increase the limit''"

fun first_exc :: "error option list \<Rightarrow> error option" where
  "first_exc [] = None"
| "first_exc (None # rs) = first_exc rs"
| "first_exc (Some e # rs) = Some e"

fun repr_exc :: "nat \<Rightarrow> pyval \<Rightarrow> error option" where
  \<comment> \<open>the exception of \<^verbatim>\<open>repr(x)\<close> when \<open>n\<close> nested calls are left\<close>
  "repr_exc 0 x = Some RecursionError"
| "repr_exc (Suc n) (PInt i) =
     (if \<bar>i\<bar> < 10 ^ max_str_digits then None else Some (ValueError digits_msg))"
| "repr_exc (Suc n) (PList xs) = first_exc (map (repr_exc n) xs)"
| "repr_exc (Suc n) (PDict d) =
     first_exc (concat (map (\<lambda>kv. [repr_exc n (PStr (fst kv)), repr_exc n (snd kv)]) d))"
| "repr_exc (Suc n) x = None"

subsection \<open>Converting a field of a dictionary\<close>

definition conv_int :: "builtins \<Rightarrow> string \<Rightarrow> (int \<Rightarrow> int) \<Rightarrow> pydict \<Rightarrow> error + pydict" where
  \<comment> \<open>\<^verbatim>\<open>d[k] = f(int(d[k]))\<close>\<close>
  "conv_int bi k f d =
     bind_exc (getitem d k) (\<lambda>x.
     bind_exc (py_int bi x) (\<lambda>i.
     Inr (setitem d k (PInt (f i)))))"

definition conv_float ::
  "builtins \<Rightarrow> string \<Rightarrow> (pyfloat \<Rightarrow> pyfloat) \<Rightarrow> pydict \<Rightarrow> error + pydict" where
  \<comment> \<open>\<^verbatim>\<open>d[k] = f(float(d[k]))\<close>\<close>
  "conv_float bi k f d =
     bind_exc (getitem d k) (\<lambda>x.
     bind_exc (py_float bi x) (\<lambda>r.
     Inr (setitem d k (PFloat (f r)))))"

section \<open>The providers' supported models\<close>

text \<open>
  \<^verbatim>\<open>settings.PROVIDER_SUPPORTED_MODELS\<close> comes from the configuration; it is a
  parameter: a dictionary from provider name to list of model names.
\<close>

type_synonym settings = "(string \<times> string list) list"

definition aliyun_supported_models :: "settings \<Rightarrow> string list" where
  "aliyun_supported_models cfg =
     (case map_of cfg ''aliyun'' of
        Some ms \<Rightarrow> ms
      | None \<Rightarrow> [''qwen-turbo'', ''qwen-plus'', ''qwen-max'',
                 ''qwen3-235b-a22b'', ''qwen3-30b-a3b'', ''qwen-plus-latest'',
                 ''qwen-turbo-latest'', ''qwen-vl-max'', ''qwen-vl-plus''])"

definition deepseek_supported_models :: "settings \<Rightarrow> string list" where
  "deepseek_supported_models cfg =
     (case map_of cfg ''deepseek'' of
        Some ms \<Rightarrow> ms
      | None \<Rightarrow> [''deepseek-chat'', ''deepseek-reasoner''])"

fun join :: "string \<Rightarrow> string list \<Rightarrow> string" where
  \<comment> \<open>\<^verbatim>\<open>sep.join(xs)\<close>\<close>
  "join sep [] = []"
| "join sep [x] = x"
| "join sep (x # y # ys) = x @ sep @ join sep (y # ys)"

definition sq :: string where
  \<comment> \<open>the single quote\<close>
  "sq = [CHR 0x27]"

definition unsupported_msg :: "string \<Rightarrow> string list \<Rightarrow> string" where
  "unsupported_msg model supported =
     ''Model '' @ sq @ model @ sq @ '' not supported. Supported models: ''
       @ join '', '' supported"

definition missing_msg :: string where
  "missing_msg =
     ''Parameter '' @ sq @ ''prompt'' @ sq @ '' or '' @ sq @ ''messages'' @ sq
       @ '' is required''"

section \<open>Parameter validation\<close>

definition user_message :: "pyval \<Rightarrow> pyval" where
  "user_message prompt = PDict [(''role'', PStr ''user''), (''content'', prompt)]"

subsection \<open>Aliyun\<close>

definition aliyun_messages :: "pydict \<Rightarrow> pydict \<Rightarrow> error + pydict" where
  "aliyun_messages parameters validated =
     (if has_key parameters ''messages'' then
        bind_exc (getitem parameters ''messages'') (\<lambda>ms.
        Inr (setitem validated ''messages'' ms))
      else if has_key parameters ''prompt'' then
        bind_exc (getitem parameters ''prompt'') (\<lambda>p.
        Inr (setitem validated ''messages'' (PList [user_message p])))
      else Inr validated)"

definition aliyun_max_tokens :: "builtins \<Rightarrow> pydict \<Rightarrow> error + pydict" where
  "aliyun_max_tokens bi validated =
     (if has_key validated ''max_tokens'' then
        conv_int bi ''max_tokens'' (\<lambda>i. py_min (<) i 6000) validated
      else Inr (setitem validated ''max_tokens'' (PInt 2048)))"

definition aliyun_temperature :: "builtins \<Rightarrow> pydict \<Rightarrow> error + pydict" where
  "aliyun_temperature bi validated =
     (if has_key validated ''temperature'' then
        conv_float bi ''temperature''
          (\<lambda>r. py_max flt (Finite 0) (py_min flt r (Finite 1))) validated
      else Inr (setitem validated ''temperature'' (PFloat (Finite (7 / 10)))))"

definition aliyun_top_p :: "builtins \<Rightarrow> pydict \<Rightarrow> error + pydict" where
  "aliyun_top_p bi validated =
     (if has_key validated ''top_p'' then
        conv_float bi ''top_p''
          (\<lambda>r. py_max flt (Finite 0) (py_min flt r (Finite 1))) validated
      else Inr (setitem validated ''top_p'' (PFloat (Finite (9 / 10)))))"

definition aliyun_top_k :: "builtins \<Rightarrow> pydict \<Rightarrow> error + pydict" where
  "aliyun_top_k bi validated =
     (if has_key validated ''top_k'' then
        conv_int bi ''top_k'' (\<lambda>i. py_max (<) 1 (py_min (<) i 100)) validated
      else Inr validated)"

definition stream_flag :: "pydict \<Rightarrow> error + pydict" where
  \<comment> \<open>the same statement in both providers\<close>
  "stream_flag validated =
     (if has_key validated ''stream'' then
        bind_exc (getitem validated ''stream'') (\<lambda>x.
        Inr (setitem validated ''stream'' (PBool (py_bool x))))
      else Inr (setitem validated ''stream'' (PBool False)))"

definition aliyun_seed :: "builtins \<Rightarrow> pydict \<Rightarrow> error + pydict" where
  "aliyun_seed bi validated =
     (if has_key validated ''seed'' then conv_int bi ''seed'' (\<lambda>i. i) validated
      else Inr validated)"

definition aliyun_enable_thinking :: "pydict \<Rightarrow> error + pydict" where
  "aliyun_enable_thinking validated =
     (if \<not> has_key validated ''enable_thinking'' then
        Inr (setitem validated ''enable_thinking'' (PBool False))
      else Inr validated)"

definition aliyun_validate_parameters ::
  "builtins \<Rightarrow> settings \<Rightarrow> string \<Rightarrow> pydict \<Rightarrow> error + pydict" where
  "aliyun_validate_parameters bi cfg model parameters =
     (if model \<notin> set (aliyun_supported_models cfg) then
        Inl (ValueError (unsupported_msg model (aliyun_supported_models cfg)))
      else if \<not> has_key parameters ''prompt'' \<and> \<not> has_key parameters ''messages'' then
        Inl (ValueError missing_msg)
      else
        bind_exc (Inr (setitem parameters ''model'' (PStr model))) (\<lambda>validated.
        bind_exc (aliyun_messages parameters validated) (\<lambda>validated.
        bind_exc (aliyun_max_tokens bi validated) (\<lambda>validated.
        bind_exc (aliyun_temperature bi validated) (\<lambda>validated.
        bind_exc (aliyun_top_p bi validated) (\<lambda>validated.
        bind_exc (aliyun_top_k bi validated) (\<lambda>validated.
        bind_exc (stream_flag validated) (\<lambda>validated.
        bind_exc (aliyun_seed bi validated) (\<lambda>validated.
        aliyun_enable_thinking validated)))))))))"

subsection \<open>DeepSeek\<close>

definition deepseek_messages :: "pydict \<Rightarrow> pydict \<Rightarrow> error + pydict" where
  "deepseek_messages parameters validated =
     (if has_key parameters ''messages'' then
        bind_exc (getitem parameters ''messages'') (\<lambda>ms.
        Inr (setitem validated ''messages'' ms))
      else if has_key parameters ''prompt'' then
        bind_exc (getitem parameters ''prompt'') (\<lambda>p.
        let validated = setitem validated ''messages'' (PList [user_message p])
        in if has_key validated ''prompt'' then Inr (delitem validated ''prompt'')
           else Inr validated)
      else Inr validated)"

definition deepseek_max_tokens :: "builtins \<Rightarrow> pydict \<Rightarrow> error + pydict" where
  "deepseek_max_tokens bi validated =
     (if has_key validated ''max_tokens'' then
        conv_int bi ''max_tokens'' (\<lambda>i. py_min (<) i 32768) validated
      else Inr (setitem validated ''max_tokens'' (PInt 4096)))"

definition deepseek_temperature :: "builtins \<Rightarrow> string \<Rightarrow> pydict \<Rightarrow> error + pydict" where
  "deepseek_temperature bi model validated =
     (if has_key validated ''temperature'' \<and> model \<noteq> ''deepseek-reasoner'' then
        conv_float bi ''temperature''
          (\<lambda>r. py_max flt (Finite 0) (py_min flt r (Finite 2))) validated
      else if model \<noteq> ''deepseek-reasoner'' then
        Inr (setitem validated ''temperature'' (PFloat (Finite (7 / 10))))
      else Inr validated)"

definition deepseek_top_p :: "builtins \<Rightarrow> string \<Rightarrow> pydict \<Rightarrow> error + pydict" where
  "deepseek_top_p bi model validated =
     (if has_key validated ''top_p'' \<and> model \<noteq> ''deepseek-reasoner'' then
        conv_float bi ''top_p''
          (\<lambda>r. py_max flt (Finite 0) (py_min flt r (Finite 1))) validated
      else if model \<noteq> ''deepseek-reasoner'' then
        Inr (setitem validated ''top_p'' (PFloat (Finite (9 / 10))))
      else Inr validated)"

definition log_validated :: "builtins \<Rightarrow> pydict \<Rightarrow> error + pydict" where
  \<comment> \<open>\<^verbatim>\<open>logger.info(f"Validated parameters for DeepSeek API: {validated}")\<close>: the
      f-string is built before the logger is called\<close>
  "log_validated bi validated =
     (case repr_exc (repr_depth bi) (PDict validated) of
        Some e \<Rightarrow> Inl e
      | None \<Rightarrow> Inr validated)"

definition deepseek_validate_parameters ::
  "builtins \<Rightarrow> settings \<Rightarrow> string \<Rightarrow> pydict \<Rightarrow> error + pydict" where
  "deepseek_validate_parameters bi cfg model parameters =
     (if model \<notin> set (deepseek_supported_models cfg) then
        Inl (ValueError (unsupported_msg model (deepseek_supported_models cfg)))
      else if \<not> has_key parameters ''prompt'' \<and> \<not> has_key parameters ''messages'' then
        Inl (ValueError missing_msg)
      else
        bind_exc (Inr (setitem parameters ''model'' (PStr model))) (\<lambda>validated.
        bind_exc (deepseek_messages parameters validated) (\<lambda>validated.
        bind_exc (deepseek_max_tokens bi validated) (\<lambda>validated.
        bind_exc (deepseek_temperature bi model validated) (\<lambda>validated.
        bind_exc (deepseek_top_p bi model validated) (\<lambda>validated.
        bind_exc (stream_flag validated) (\<lambda>validated.
        log_validated bi validated)))))))"

subsection \<open>The provider interface\<close>

datatype provider = Aliyun | DeepSeek

fun supported_models :: "provider \<Rightarrow> settings \<Rightarrow> string list" where
  "supported_models Aliyun cfg = aliyun_supported_models cfg"
| "supported_models DeepSeek cfg = deepseek_supported_models cfg"

fun validate_parameters ::
  "provider \<Rightarrow> builtins \<Rightarrow> settings \<Rightarrow> string \<Rightarrow> pydict \<Rightarrow> error + pydict" where
  "validate_parameters Aliyun = aliyun_validate_parameters"
| "validate_parameters DeepSeek = deepseek_validate_parameters"

definition no_strings :: builtins where
  \<comment> \<open>parsers that reject every string, for inputs without numeric strings, and
      room for values nested a hundred deep\<close>
  "no_strings = \<lparr>str_to_int = (\<lambda>s. None), str_to_float = (\<lambda>s. None), repr_depth = 100\<rparr>"

section \<open>Validation on a heap\<close>

text \<open>
  \<^verbatim>\<open>validate_parameters\<close> receives a reference to the caller's dictionary.
  Whether the caller's dictionary changes depends on which object each statement
  writes to, so the function is also given statement by statement on a heap of
  dictionary objects: \<^verbatim>\<open>parameters.copy()\<close> allocates a new object, and every
  later statement updates the object that \<^verbatim>\<open>validated\<close> refers to. The values
  stored under the keys are shared, as in a shallow copy.
\<close>

record heap =
  cells :: "nat \<Rightarrow> pydict"
  next_addr :: nat

definition dict_copy :: "nat \<Rightarrow> heap \<Rightarrow> nat \<times> heap" where
  \<comment> \<open>\<^verbatim>\<open>d.copy()\<close>: a new object with the keys and values of the old one\<close>
  "dict_copy a h =
     (next_addr h,
      h\<lparr>cells := (cells h)(next_addr h := cells h a), next_addr := Suc (next_addr h)\<rparr>)"

definition in_place :: "nat \<Rightarrow> (pydict \<Rightarrow> error + pydict) \<Rightarrow> heap \<Rightarrow> (error + unit) \<times> heap" where
  \<comment> \<open>a statement that reads and writes the object at address \<open>a\<close>\<close>
  "in_place a stmt h =
     (case stmt (cells h a) of
        Inl e \<Rightarrow> (Inl e, h)
      | Inr d \<Rightarrow> (Inr (), h\<lparr>cells := (cells h)(a := d)\<rparr>))"

definition then_st ::
  "(error + unit) \<times> heap \<Rightarrow> (heap \<Rightarrow> (error + 'a) \<times> heap) \<Rightarrow> (error + 'a) \<times> heap" where
  \<comment> \<open>the next statement runs unless the previous one raised\<close>
  "then_st r f = (case r of (Inl e, h) \<Rightarrow> (Inl e, h) | (Inr u, h) \<Rightarrow> f h)"

definition aliyun_validate_parameters_st ::
  "builtins \<Rightarrow> settings \<Rightarrow> string \<Rightarrow> nat \<Rightarrow> heap \<Rightarrow> (error + nat) \<times> heap" where
  "aliyun_validate_parameters_st bi cfg model parameters h =
     (if model \<notin> set (aliyun_supported_models cfg) then
        (Inl (ValueError (unsupported_msg model (aliyun_supported_models cfg))), h)
      else if \<not> has_key (cells h parameters) ''prompt''
              \<and> \<not> has_key (cells h parameters) ''messages'' then
        (Inl (ValueError missing_msg), h)
      else
        case dict_copy parameters h of (validated, h) \<Rightarrow>
        then_st (in_place validated (\<lambda>d. Inr (setitem d ''model'' (PStr model))) h) (\<lambda>h.
        then_st (in_place validated (aliyun_messages (cells h parameters)) h) (\<lambda>h.
        then_st (in_place validated (aliyun_max_tokens bi) h) (\<lambda>h.
        then_st (in_place validated (aliyun_temperature bi) h) (\<lambda>h.
        then_st (in_place validated (aliyun_top_p bi) h) (\<lambda>h.
        then_st (in_place validated (aliyun_top_k bi) h) (\<lambda>h.
        then_st (in_place validated stream_flag h) (\<lambda>h.
        then_st (in_place validated (aliyun_seed bi) h) (\<lambda>h.
        then_st (in_place validated aliyun_enable_thinking h) (\<lambda>h.
        (Inr validated, h)))))))))))"

definition deepseek_validate_parameters_st ::
  "builtins \<Rightarrow> settings \<Rightarrow> string \<Rightarrow> nat \<Rightarrow> heap \<Rightarrow> (error + nat) \<times> heap" where
  "deepseek_validate_parameters_st bi cfg model parameters h =
     (if model \<notin> set (deepseek_supported_models cfg) then
        (Inl (ValueError (unsupported_msg model (deepseek_supported_models cfg))), h)
      else if \<not> has_key (cells h parameters) ''prompt''
              \<and> \<not> has_key (cells h parameters) ''messages'' then
        (Inl (ValueError missing_msg), h)
      else
        case dict_copy parameters h of (validated, h) \<Rightarrow>
        then_st (in_place validated (\<lambda>d. Inr (setitem d ''model'' (PStr model))) h) (\<lambda>h.
        then_st (in_place validated (deepseek_messages (cells h parameters)) h) (\<lambda>h.
        then_st (in_place validated (deepseek_max_tokens bi) h) (\<lambda>h.
        then_st (in_place validated (deepseek_temperature bi model) h) (\<lambda>h.
        then_st (in_place validated (deepseek_top_p bi model) h) (\<lambda>h.
        then_st (in_place validated stream_flag h) (\<lambda>h.
        then_st (in_place validated (log_validated bi) h) (\<lambda>h.
        (Inr validated, h)))))))))"

fun validate_parameters_st ::
  "provider \<Rightarrow> builtins \<Rightarrow> settings \<Rightarrow> string \<Rightarrow> nat \<Rightarrow> heap \<Rightarrow> (error + nat) \<times> heap" where
  "validate_parameters_st Aliyun = aliyun_validate_parameters_st"
| "validate_parameters_st DeepSeek = deepseek_validate_parameters_st"

section \<open>Response normalization\<close>

subsection \<open>Operations on a value of unknown type\<close>

fun is_infix :: "string \<Rightarrow> string \<Rightarrow> bool" where
  \<comment> \<open>\<^verbatim>\<open>k in s\<close> on strings: \<open>k\<close> occurs in \<open>s\<close>\<close>
  "is_infix k [] = (k = [])"
| "is_infix k (c # cs) = (take (length k) (c # cs) = k \<or> is_infix k cs)"

fun py_contains :: "pyval \<Rightarrow> string \<Rightarrow> error + bool" where
  \<comment> \<open>\<^verbatim>\<open>k in x\<close> for a string \<open>k\<close>\<close>
  "py_contains (PDict d) k = Inr (has_key d k)"
| "py_contains (PList xs) k = Inr (PStr k \<in> set xs)"
| "py_contains (PStr s) k = Inr (is_infix k s)"
| "py_contains x k = Inl TypeError"

fun py_subscript :: "pyval \<Rightarrow> string \<Rightarrow> error + pyval" where
  \<comment> \<open>\<^verbatim>\<open>x[k]\<close> for a string \<open>k\<close>\<close>
  "py_subscript (PDict d) k = getitem d k"
| "py_subscript x k = Inl TypeError"

fun py_get :: "pyval \<Rightarrow> string \<Rightarrow> pyval \<Rightarrow> error + pyval" where
  \<comment> \<open>\<^verbatim>\<open>x.get(k, default)\<close>: only a dictionary has the method\<close>
  "py_get (PDict d) k dflt = Inr (get_or d k dflt)"
| "py_get x k dflt = Inl AttributeError"

fun py_iter :: "pyval \<Rightarrow> error + pyval list" where
  \<comment> \<open>the items a \<^verbatim>\<open>for\<close> loop visits: the elements of a list, the keys of a
      dictionary, the characters of a string\<close>
  "py_iter (PList xs) = Inr xs"
| "py_iter (PDict d) = Inr (map (\<lambda>kv. PStr (fst kv)) d)"
| "py_iter (PStr s) = Inr (map (\<lambda>c. PStr [c]) s)"
| "py_iter x = Inl TypeError"

subsection \<open>Aliyun\<close>

definition format_choice :: "int \<Rightarrow> pyval \<Rightarrow> error + pyval" where
  \<comment> \<open>the body of the loop over \<^verbatim>\<open>output["choices"]\<close>\<close>
  "format_choice i choice =
     bind_exc (py_get choice ''message'' (PDict [])) (\<lambda>m.
     bind_exc (py_get m ''content'' (PStr [])) (\<lambda>content.
     bind_exc (py_get choice ''finish_reason'' (PStr ''stop'')) (\<lambda>finish_reason.
     bind_exc (py_get choice ''message'' (PDict [])) (\<lambda>m'.
     bind_exc (py_contains m' ''tool_calls'') (\<lambda>has_tool_calls.
     if has_tool_calls then
       bind_exc (py_subscript choice ''message'') (\<lambda>m''.
       bind_exc (py_subscript m'' ''tool_calls'') (\<lambda>tool_calls.
       Inr (PDict [(''index'', PInt i),
                   (''message'', PDict [(''role'', PStr ''assistant''),
                                        (''content'', content),
                                        (''tool_calls'', tool_calls)]),
                   (''finish_reason'', finish_reason)])))
     else
       Inr (PDict [(''index'', PInt i),
                   (''message'', PDict [(''role'', PStr ''assistant''),
                                        (''content'', content)]),
                   (''finish_reason'', finish_reason)]))))))"

fun format_choices :: "int \<Rightarrow> pyval list \<Rightarrow> error + pyval list" where
  \<comment> \<open>\<^verbatim>\<open>for i, choice in enumerate(...)\<close>, from index \<open>i\<close> on\<close>
  "format_choices i [] = Inr []"
| "format_choices i (choice # rest) =
     bind_exc (format_choice i choice) (\<lambda>choice_data.
     bind_exc (format_choices (i + 1) rest) (\<lambda>more.
     Inr (choice_data # more)))"

definition aliyun_choices :: "pyval \<Rightarrow> error + pyval list" where
  "aliyun_choices output =
     bind_exc (py_contains output ''text'') (\<lambda>has_text.
     if has_text then
       bind_exc (py_subscript output ''text'') (\<lambda>text.
       bind_exc (py_get output ''finish_reason'' (PStr ''stop'')) (\<lambda>finish_reason.
       Inr [PDict [(''index'', PInt 0),
                   (''message'', PDict [(''role'', PStr ''assistant''),
                                        (''content'', text)]),
                   (''finish_reason'', finish_reason)]]))
     else
       bind_exc (py_contains output ''choices'') (\<lambda>has_choices.
       if has_choices then
         bind_exc (py_subscript output ''choices'') (\<lambda>choices.
         bind_exc (py_iter choices) (\<lambda>items.
         format_choices 0 items))
       else Inr []))"

definition aliyun_usage :: "pyval \<Rightarrow> error + pyval" where
  "aliyun_usage usage =
     (if py_bool usage then
        bind_exc (py_get usage ''input_tokens'' (PInt 0)) (\<lambda>prompt_tokens.
        bind_exc (py_get usage ''output_tokens'' (PInt 0)) (\<lambda>completion_tokens.
        bind_exc (py_get usage ''total_tokens'' (PInt 0)) (\<lambda>total_tokens.
        Inr (PDict [(''prompt_tokens'', prompt_tokens),
                    (''completion_tokens'', completion_tokens),
                    (''total_tokens'', total_tokens)]))))
      else Inr (PDict []))"

text \<open>
  \<open>uuid\<close> is the string of \<^verbatim>\<open>uuid.uuid4()\<close> and \<open>now\<close> the formatted
  \<^verbatim>\<open>datetime.now()\<close> of the call.
\<close>

definition format_response :: "string \<Rightarrow> string \<Rightarrow> pydict \<Rightarrow> pydict \<Rightarrow> error + pydict" where
  "format_response uuid now api_response original_params =
     (let output = get_or api_response ''output'' (PDict []);
          formatted_response =
            [(''id'', get_or api_response ''request_id'' (PStr uuid)),
             (''model'', get_or original_params ''model'' (PStr [])),
             (''created'', PStr now),
             (''choices'', PList []),
             (''usage'', PDict [])]
      in bind_exc (aliyun_choices output) (\<lambda>choices.
         bind_exc (aliyun_usage (get_or api_response ''usage'' (PDict []))) (\<lambda>usage.
         Inr (setitem (setitem formatted_response ''choices'' (PList choices))
                ''usage'' usage))))"

subsection \<open>DeepSeek\<close>

text \<open>
  The DeepSeek provider reads the attributes of the response object of the OpenAI
  client. An attribute that may be missing or \<^verbatim>\<open>None\<close> is an option:
  \<open>None\<close> where \<^verbatim>\<open>hasattr\<close> or the truth test of the source fails. For
  \<^verbatim>\<open>reasoning_content\<close> only \<^verbatim>\<open>hasattr\<close> is tested, so its \<open>None\<close> is the
  missing attribute.
\<close>

record function_call =
  fc_name :: pyval
  fc_arguments :: pyval

record chat_message =
  msg_role :: pyval
  msg_content :: pyval
  msg_reasoning_content :: "pyval option"
  msg_function_call :: "function_call option"

record chat_choice =
  ch_index :: pyval
  ch_message :: chat_message
  ch_finish_reason :: pyval

record completion_usage =
  prompt_tokens :: pyval
  completion_tokens :: pyval
  total_tokens :: pyval

record chat_completion =
  resp_id :: pyval
  resp_object :: pyval
  resp_model :: pyval
  resp_choices :: "chat_choice list"
  resp_usage :: "completion_usage option"

definition deepseek_choice :: "string \<Rightarrow> chat_choice \<Rightarrow> pyval" where
  "deepseek_choice model choice =
     (let message = [(''role'', msg_role (ch_message choice)),
                     (''content'', msg_content (ch_message choice))];
          message =
            (case msg_reasoning_content (ch_message choice) of
               Some rc \<Rightarrow>
                 if model = ''deepseek-reasoner''
                 then setitem message ''reasoning_content'' rc else message
             | None \<Rightarrow> message);
          message =
            (case msg_function_call (ch_message choice) of
               Some fc \<Rightarrow>
                 setitem message ''function_call''
                   (PDict [(''name'', fc_name fc), (''arguments'', fc_arguments fc)])
             | None \<Rightarrow> message)
      in PDict [(''index'', ch_index choice),
                (''message'', PDict message),
                (''finish_reason'', ch_finish_reason choice)])"

definition deepseek_result :: "string \<Rightarrow> string \<Rightarrow> chat_completion \<Rightarrow> pydict" where
  \<comment> \<open>the result that \<^verbatim>\<open>call_model\<close> builds from the response\<close>
  "deepseek_result model now response =
     (let result = [(''id'', resp_id response),
                    (''object'', resp_object response),
                    (''created'', PStr now),
                    (''model'', resp_model response),
                    (''choices'', PList (map (deepseek_choice model) (resp_choices response)))]
      in case resp_usage response of
           Some usage \<Rightarrow>
             setitem result ''usage''
               (PDict [(''prompt_tokens'', prompt_tokens usage),
                       (''completion_tokens'', completion_tokens usage),
                       (''total_tokens'', total_tokens usage)])
         | None \<Rightarrow> result)"

section \<open>Predicates of the properties\<close>

text \<open>The parameter names that the specification calls the known core set.\<close>

definition core_keys :: "string list" where
  "core_keys = [''model'', ''messages'', ''prompt'', ''max_tokens'', ''temperature'',
                ''top_p'', ''top_k'', ''stream'', ''seed'', ''enable_thinking'']"

text \<open>
  The field \<open>k\<close> of a dictionary holds an int, or a finite float, that
  satisfies \<open>P\<close>.
\<close>

definition int_field :: "pydict \<Rightarrow> string \<Rightarrow> (int \<Rightarrow> bool) \<Rightarrow> bool" where
  "int_field d k P = (case map_of d k of Some (PInt i) \<Rightarrow> P i | _ \<Rightarrow> False)"

definition float_field :: "pydict \<Rightarrow> string \<Rightarrow> (real \<Rightarrow> bool) \<Rightarrow> bool" where
  "float_field d k P = (case map_of d k of Some (PFloat (Finite r)) \<Rightarrow> P r | _ \<Rightarrow> False)"

text \<open>
  The numeric fields that a validator passes to \<^verbatim>\<open>int()\<close> or \<^verbatim>\<open>float()\<close>
  can all be converted: a field that is absent needs no conversion.
\<close>

definition int_ok :: "builtins \<Rightarrow> pydict \<Rightarrow> string \<Rightarrow> bool" where
  "int_ok bi d k = (case map_of d k of None \<Rightarrow> True | Some x \<Rightarrow> \<not> isl (py_int bi x))"

definition float_ok :: "builtins \<Rightarrow> pydict \<Rightarrow> string \<Rightarrow> bool" where
  "float_ok bi d k = (case map_of d k of None \<Rightarrow> True | Some x \<Rightarrow> \<not> isl (py_float bi x))"

fun convertible :: "provider \<Rightarrow> builtins \<Rightarrow> string \<Rightarrow> pydict \<Rightarrow> bool" where
  "convertible Aliyun bi model d =
     (int_ok bi d ''max_tokens'' \<and> float_ok bi d ''temperature'' \<and> float_ok bi d ''top_p''
      \<and> int_ok bi d ''top_k'' \<and> int_ok bi d ''seed'')"
| "convertible DeepSeek bi model d =
     (int_ok bi d ''max_tokens''
      \<and> (model \<noteq> ''deepseek-reasoner'' \<longrightarrow>
           float_ok bi d ''temperature'' \<and> float_ok bi d ''top_p''))"

definition conversion_error :: "error \<Rightarrow> bool" where
  \<comment> \<open>the exceptions of \<^verbatim>\<open>int()\<close> and \<^verbatim>\<open>float()\<close>\<close>
  "conversion_error e = (e = ConversionValueError \<or> e = TypeError \<or> e = OverflowError)"

definition format_error :: "error \<Rightarrow> bool" where
  \<comment> \<open>the exceptions of formatting a value\<close>
  "format_error e = (e = RecursionError \<or> e = ValueError digits_msg)"

text \<open>
  Parameters that the DeepSeek validator can write to its log once they are
  validated: every value can be formatted three levels below what is left of the
  recursion limit (a prompt ends up three levels down in \<^verbatim>\<open>messages\<close>), and
  \<^verbatim>\<open>max_tokens\<close>, once converted, is not a negative int of more than
  \<^const>\<open>max_str_digits\<close> digits.
\<close>

definition loggable :: "builtins \<Rightarrow> pydict \<Rightarrow> bool" where
  "loggable bi d =
     (3 < repr_depth bi
      \<and> list_all (\<lambda>kv. repr_exc (repr_depth bi - 3) (snd kv) = None) d
      \<and> (case map_of d ''max_tokens'' of
           Some x \<Rightarrow> (case py_int bi x of Inr i \<Rightarrow> - (10 ^ max_str_digits) < i | Inl e \<Rightarrow> True)
         | None \<Rightarrow> True))"

text \<open>Ranges, as predicates on the value of a field.\<close>

definition at_most :: "int \<Rightarrow> int \<Rightarrow> bool" where
  "at_most hi = (\<lambda>i. i \<le> hi)"

definition int_between :: "int \<Rightarrow> int \<Rightarrow> int \<Rightarrow> bool" where
  "int_between lo hi = (\<lambda>i. lo \<le> i \<and> i \<le> hi)"

definition float_between :: "real \<Rightarrow> real \<Rightarrow> real \<Rightarrow> bool" where
  "float_between lo hi = (\<lambda>r. lo \<le> r \<and> r \<le> hi)"

section \<open>Lemmas on the statements of validation\<close>

lemma bind_exc_Inr: "bind_exc r f = Inr y \<longleftrightarrow> (\<exists>x. r = Inr x \<and> f x = Inr y)"
  by (cases r) (simp_all add: bind_exc_def)

lemma bind_exc_Inl: "bind_exc r f = Inl e \<longleftrightarrow> r = Inl e \<or> (\<exists>x. r = Inr x \<and> f x = Inl e)"
  by (cases r) (simp_all add: bind_exc_def)

lemma bind_exc_simps [simp]: "bind_exc (Inr x) f = f x" "bind_exc (Inl e) f = Inl e"
  by (simp_all add: bind_exc_def)

lemma map_of_setitem: "map_of (setitem d k x) k' = (if k' = k then Some x else map_of d k')"
  by (simp add: setitem_def update_conv')

lemma map_of_delitem: "map_of (delitem d k) k' = (if k' = k then None else map_of d k')"
  by (simp add: delitem_def delete_conv')

lemma has_key_setitem: "has_key (setitem d k x) k' \<longleftrightarrow> k' = k \<or> has_key d k'"
  by (simp add: has_key_def map_of_setitem)

lemma getitem_Inr: "getitem d k = Inr x \<longleftrightarrow> map_of d k = Some x"
  by (simp add: getitem_def split: option.splits)

lemma conv_int_Inr:
  "conv_int bi k f d = Inr d' \<longleftrightarrow>
     (\<exists>x i. map_of d k = Some x \<and> py_int bi x = Inr i \<and> d' = setitem d k (PInt (f i)))"
  by (auto simp: conv_int_def bind_exc_Inr getitem_Inr)

lemma conv_float_Inr:
  "conv_float bi k f d = Inr d' \<longleftrightarrow>
     (\<exists>x r. map_of d k = Some x \<and> py_float bi x = Inr r \<and> d' = setitem d k (PFloat (f r)))"
  by (auto simp: conv_float_def bind_exc_Inr getitem_Inr)

lemma aliyun_max_tokens_frame: "aliyun_max_tokens bi d = Inr d' \<Longrightarrow> k \<noteq> ''max_tokens'' \<Longrightarrow> map_of d' k = map_of d k"
  by (auto simp: aliyun_max_tokens_def conv_int_Inr map_of_setitem split: if_splits)

lemma aliyun_temperature_frame: "aliyun_temperature bi d = Inr d' \<Longrightarrow> k \<noteq> ''temperature'' \<Longrightarrow> map_of d' k = map_of d k"
  by (auto simp: aliyun_temperature_def conv_float_Inr map_of_setitem split: if_splits)

lemma aliyun_top_p_frame: "aliyun_top_p bi d = Inr d' \<Longrightarrow> k \<noteq> ''top_p'' \<Longrightarrow> map_of d' k = map_of d k"
  by (auto simp: aliyun_top_p_def conv_float_Inr map_of_setitem split: if_splits)

lemma aliyun_top_k_frame: "aliyun_top_k bi d = Inr d' \<Longrightarrow> k \<noteq> ''top_k'' \<Longrightarrow> map_of d' k = map_of d k"
  by (auto simp: aliyun_top_k_def conv_int_Inr map_of_setitem split: if_splits)

lemma stream_flag_frame: "stream_flag d = Inr d' \<Longrightarrow> k \<noteq> ''stream'' \<Longrightarrow> map_of d' k = map_of d k"
  by (auto simp: stream_flag_def bind_exc_Inr map_of_setitem split: if_splits)

lemma aliyun_seed_frame: "aliyun_seed bi d = Inr d' \<Longrightarrow> k \<noteq> ''seed'' \<Longrightarrow> map_of d' k = map_of d k"
  by (auto simp: aliyun_seed_def conv_int_Inr map_of_setitem split: if_splits)

lemma aliyun_enable_thinking_frame: "aliyun_enable_thinking d = Inr d' \<Longrightarrow> k \<noteq> ''enable_thinking'' \<Longrightarrow> map_of d' k = map_of d k"
  by (auto simp: aliyun_enable_thinking_def map_of_setitem split: if_splits)

lemma aliyun_messages_frame: "aliyun_messages ps d = Inr d' \<Longrightarrow> k \<noteq> ''messages'' \<Longrightarrow> map_of d' k = map_of d k"
  by (auto simp: aliyun_messages_def bind_exc_Inr map_of_setitem split: if_splits)

lemma deepseek_messages_frame: "deepseek_messages ps d = Inr d' \<Longrightarrow> k \<noteq> ''messages'' \<Longrightarrow> k \<noteq> ''prompt'' \<Longrightarrow> map_of d' k = map_of d k"
  by (auto simp: deepseek_messages_def bind_exc_Inr map_of_setitem map_of_delitem Let_def split: if_splits)

lemma deepseek_max_tokens_frame: "deepseek_max_tokens bi d = Inr d' \<Longrightarrow> k \<noteq> ''max_tokens'' \<Longrightarrow> map_of d' k = map_of d k"
  by (auto simp: deepseek_max_tokens_def conv_int_Inr map_of_setitem split: if_splits)

lemma deepseek_temperature_frame: "deepseek_temperature bi m d = Inr d' \<Longrightarrow> k \<noteq> ''temperature'' \<Longrightarrow> map_of d' k = map_of d k"
  by (auto simp: deepseek_temperature_def conv_float_Inr map_of_setitem split: if_splits)

lemma deepseek_top_p_frame: "deepseek_top_p bi m d = Inr d' \<Longrightarrow> k \<noteq> ''top_p'' \<Longrightarrow> map_of d' k = map_of d k"
  by (auto simp: deepseek_top_p_def conv_float_Inr map_of_setitem split: if_splits)

lemma repr_exc_unfold:
  "repr_exc n PNone = (if n = 0 then Some RecursionError else None)"
  "repr_exc n (PBool b) = (if n = 0 then Some RecursionError else None)"
  "repr_exc n (PFloat f) = (if n = 0 then Some RecursionError else None)"
  "repr_exc n (PStr s) = (if n = 0 then Some RecursionError else None)"
  "repr_exc n (PInt i) =
     (if n = 0 then Some RecursionError
      else if \<bar>i\<bar> < 10 ^ max_str_digits then None else Some (ValueError digits_msg))"
  "repr_exc n (PList xs) =
     (if n = 0 then Some RecursionError else first_exc (map (repr_exc (n - 1)) xs))"
  "repr_exc n (PDict d) =
     (if n = 0 then Some RecursionError
      else first_exc (concat (map (\<lambda>kv. [repr_exc (n - 1) (PStr (fst kv)),
                                            repr_exc (n - 1) (snd kv)]) d)))"
  by (cases n; simp)+

lemma small_int_digits: "i < 2 ^ 64 \<Longrightarrow> (i::int) < 10 ^ max_str_digits"
proof -
  assume a: "i < 2 ^ 64"
  have "(2::int) ^ 64 \<le> 10 ^ 64"
    by (rule power_mono) simp_all
  also have "\<dots> \<le> 10 ^ max_str_digits"
    by (rule power_increasing) (simp_all add: max_str_digits_def)
  finally show ?thesis
    using a by simp
qed

lemma log_validated_Inr:
  "log_validated bi d = Inr d' \<longleftrightarrow> d' = d \<and> repr_exc (repr_depth bi) (PDict d) = None"
  by (auto simp: log_validated_def split: option.splits)

lemma aliyun_validate_Inr:
  "aliyun_validate_parameters bi cfg model ps = Inr v \<longleftrightarrow>
     model \<in> set (aliyun_supported_models cfg) \<and>
     (has_key ps ''prompt'' \<or> has_key ps ''messages'') \<and>
     (\<exists>v1 v2 v3 v4 v5 v6 v7.
        aliyun_messages ps (setitem ps ''model'' (PStr model)) = Inr v1 \<and>
        aliyun_max_tokens bi v1 = Inr v2 \<and>
        aliyun_temperature bi v2 = Inr v3 \<and>
        aliyun_top_p bi v3 = Inr v4 \<and>
        aliyun_top_k bi v4 = Inr v5 \<and>
        stream_flag v5 = Inr v6 \<and>
        aliyun_seed bi v6 = Inr v7 \<and>
        aliyun_enable_thinking v7 = Inr v)"
  by (auto simp: aliyun_validate_parameters_def bind_exc_Inr)

lemma deepseek_validate_Inr:
  "deepseek_validate_parameters bi cfg model ps = Inr v \<longleftrightarrow>
     model \<in> set (deepseek_supported_models cfg) \<and>
     (has_key ps ''prompt'' \<or> has_key ps ''messages'') \<and>
     (\<exists>v1 v2 v3 v4.
        deepseek_messages ps (setitem ps ''model'' (PStr model)) = Inr v1 \<and>
        deepseek_max_tokens bi v1 = Inr v2 \<and>
        deepseek_temperature bi model v2 = Inr v3 \<and>
        deepseek_top_p bi model v3 = Inr v4 \<and>
        stream_flag v4 = Inr v) \<and>
     repr_exc (repr_depth bi) (PDict v) = None"
  by (auto simp: deepseek_validate_parameters_def bind_exc_Inr log_validated_Inr)

lemma clamp_float_range:
  assumes "lo \<le> hi"
  shows "\<exists>r. py_max flt (Finite lo) (py_min flt x (Finite hi)) = Finite r \<and> lo \<le> r \<and> r \<le> hi"
  using assms by (cases x) (auto simp: py_max_def py_min_def)

lemma clamp_int_upper: "py_min (<) (i::int) hi \<le> hi"
  by (simp add: py_min_def)

lemma clamp_int_range: "(lo::int) \<le> hi \<Longrightarrow> lo \<le> py_max (<) lo (py_min (<) i hi) \<and> py_max (<) lo (py_min (<) i hi) \<le> hi"
  by (simp add: py_max_def py_min_def)

lemma int_field_setitem: "int_field (setitem d k (PInt i)) k P = P i"
  by (simp add: int_field_def map_of_setitem)

lemma float_field_setitem: "float_field (setitem d k (PFloat (Finite r))) k P = P r"
  by (simp add: float_field_def map_of_setitem)

lemma float_field_clamp:
  assumes "lo \<le> hi"
  shows "float_field (setitem d k (PFloat (py_max flt (Finite lo) (py_min flt x (Finite hi))))) k
           (\<lambda>r. lo \<le> r \<and> r \<le> hi)"
proof -
  obtain r where "py_max flt (Finite lo) (py_min flt x (Finite hi)) = Finite r"
    and "lo \<le> r" and "r \<le> hi"
    using clamp_float_range [OF assms] by blast
  then show ?thesis by (simp add: float_field_setitem)
qed

lemma aliyun_max_tokens_post:
  "aliyun_max_tokens bi d = Inr d' \<Longrightarrow> int_field d' ''max_tokens'' (\<lambda>i. i \<le> 6000)"
  by (auto simp: aliyun_max_tokens_def conv_int_Inr int_field_setitem clamp_int_upper
           split: if_splits)

lemma aliyun_temperature_post:
  "aliyun_temperature bi d = Inr d' \<Longrightarrow> float_field d' ''temperature'' (\<lambda>r. 0 \<le> r \<and> r \<le> 1)"
  by (auto simp: aliyun_temperature_def conv_float_Inr float_field_clamp float_field_setitem
           split: if_splits)

lemma aliyun_top_p_post:
  "aliyun_top_p bi d = Inr d' \<Longrightarrow> float_field d' ''top_p'' (\<lambda>r. 0 \<le> r \<and> r \<le> 1)"
  by (auto simp: aliyun_top_p_def conv_float_Inr float_field_clamp float_field_setitem
           split: if_splits)

lemma aliyun_top_k_post:
  "aliyun_top_k bi d = Inr d' \<Longrightarrow> has_key d' ''top_k'' \<Longrightarrow>
     int_field d' ''top_k'' (\<lambda>i. 1 \<le> i \<and> i \<le> 100)"
  by (auto simp: aliyun_top_k_def conv_int_Inr int_field_setitem clamp_int_range
           split: if_splits)

lemma deepseek_max_tokens_post:
  "deepseek_max_tokens bi d = Inr d' \<Longrightarrow> int_field d' ''max_tokens'' (\<lambda>i. i \<le> 32768)"
  by (auto simp: deepseek_max_tokens_def conv_int_Inr int_field_setitem clamp_int_upper
           split: if_splits)

lemma deepseek_temperature_post:
  "deepseek_temperature bi model d = Inr d' \<Longrightarrow> model \<noteq> ''deepseek-reasoner'' \<Longrightarrow>
     float_field d' ''temperature'' (\<lambda>r. 0 \<le> r \<and> r \<le> 2)"
  by (auto simp: deepseek_temperature_def conv_float_Inr float_field_clamp float_field_setitem
           split: if_splits)

lemma deepseek_top_p_post:
  "deepseek_top_p bi model d = Inr d' \<Longrightarrow> model \<noteq> ''deepseek-reasoner'' \<Longrightarrow>
     float_field d' ''top_p'' (\<lambda>r. 0 \<le> r \<and> r \<le> 1)"
  by (auto simp: deepseek_top_p_def conv_float_Inr float_field_clamp float_field_setitem
           split: if_splits)

lemma int_field_cong: "map_of d' k = map_of d k \<Longrightarrow> int_field d' k P = int_field d k P"
  by (simp add: int_field_def)

lemma float_field_cong: "map_of d' k = map_of d k \<Longrightarrow> float_field d' k P = float_field d k P"
  by (simp add: float_field_def)

lemma has_key_cong: "map_of d' k = map_of d k \<Longrightarrow> has_key d' k = has_key d k"
  by (simp add: has_key_def)

lemma aliyun_validate_frame:
  assumes "aliyun_validate_parameters bi cfg model ps = Inr v"
    and "k \<notin> {''model'', ''messages'', ''max_tokens'', ''temperature'', ''top_p'', ''top_k'',
               ''stream'', ''seed'', ''enable_thinking''}"
  shows "map_of v k = map_of ps k"
proof -
  from assms(1) obtain v1 v2 v3 v4 v5 v6 v7 where
    s: "aliyun_messages ps (setitem ps ''model'' (PStr model)) = Inr v1"
       "aliyun_max_tokens bi v1 = Inr v2"
       "aliyun_temperature bi v2 = Inr v3"
       "aliyun_top_p bi v3 = Inr v4"
       "aliyun_top_k bi v4 = Inr v5"
       "stream_flag v5 = Inr v6"
       "aliyun_seed bi v6 = Inr v7"
       "aliyun_enable_thinking v7 = Inr v"
    unfolding aliyun_validate_Inr by blast
  from assms(2) show ?thesis
    using aliyun_messages_frame [OF s(1), of k] aliyun_max_tokens_frame [OF s(2), of k]
      aliyun_temperature_frame [OF s(3), of k] aliyun_top_p_frame [OF s(4), of k]
      aliyun_top_k_frame [OF s(5), of k] stream_flag_frame [OF s(6), of k]
      aliyun_seed_frame [OF s(7), of k] aliyun_enable_thinking_frame [OF s(8), of k]
    by (simp add: map_of_setitem)
qed

lemma deepseek_validate_frame:
  assumes "deepseek_validate_parameters bi cfg model ps = Inr v"
    and "k \<notin> {''model'', ''messages'', ''prompt'', ''max_tokens'', ''temperature'', ''top_p'',
               ''stream''}"
  shows "map_of v k = map_of ps k"
proof -
  from assms(1) obtain v1 v2 v3 v4 where
    s: "deepseek_messages ps (setitem ps ''model'' (PStr model)) = Inr v1"
       "deepseek_max_tokens bi v1 = Inr v2"
       "deepseek_temperature bi model v2 = Inr v3"
       "deepseek_top_p bi model v3 = Inr v4"
       "stream_flag v4 = Inr v"
    unfolding deepseek_validate_Inr by blast
  from assms(2) show ?thesis
    using deepseek_messages_frame [OF s(1), of k] deepseek_max_tokens_frame [OF s(2), of k]
      deepseek_temperature_frame [OF s(3), of k] deepseek_top_p_frame [OF s(4), of k]
      stream_flag_frame [OF s(5), of k]
    by (simp add: map_of_setitem)
qed

lemma aliyun_validate_bounds:
  assumes "aliyun_validate_parameters bi cfg model ps = Inr v"
  shows "int_field v ''max_tokens'' (\<lambda>i. i \<le> 6000)"
    and "float_field v ''temperature'' (\<lambda>r. 0 \<le> r \<and> r \<le> 1)"
    and "float_field v ''top_p'' (\<lambda>r. 0 \<le> r \<and> r \<le> 1)"
    and "has_key v ''top_k'' \<Longrightarrow> int_field v ''top_k'' (\<lambda>i. 1 \<le> i \<and> i \<le> 100)"
proof -
  from assms obtain v1 v2 v3 v4 v5 v6 v7 where
    s: "aliyun_messages ps (setitem ps ''model'' (PStr model)) = Inr v1"
       "aliyun_max_tokens bi v1 = Inr v2"
       "aliyun_temperature bi v2 = Inr v3"
       "aliyun_top_p bi v3 = Inr v4"
       "aliyun_top_k bi v4 = Inr v5"
       "stream_flag v5 = Inr v6"
       "aliyun_seed bi v6 = Inr v7"
       "aliyun_enable_thinking v7 = Inr v"
    unfolding aliyun_validate_Inr by blast
  have "map_of v ''max_tokens'' = map_of v2 ''max_tokens''"
    using aliyun_temperature_frame [OF s(3), of "''max_tokens''"]
      aliyun_top_p_frame [OF s(4), of "''max_tokens''"]
      aliyun_top_k_frame [OF s(5), of "''max_tokens''"]
      stream_flag_frame [OF s(6), of "''max_tokens''"]
      aliyun_seed_frame [OF s(7), of "''max_tokens''"]
      aliyun_enable_thinking_frame [OF s(8), of "''max_tokens''"]
    by simp
  then have "int_field v ''max_tokens'' (\<lambda>i. i \<le> 6000)
      = int_field v2 ''max_tokens'' (\<lambda>i. i \<le> 6000)"
    by (rule int_field_cong)
  then show "int_field v ''max_tokens'' (\<lambda>i. i \<le> 6000)"
    using aliyun_max_tokens_post [OF s(2)] by simp
  have "map_of v ''temperature'' = map_of v3 ''temperature''"
    using aliyun_top_p_frame [OF s(4), of "''temperature''"]
      aliyun_top_k_frame [OF s(5), of "''temperature''"]
      stream_flag_frame [OF s(6), of "''temperature''"]
      aliyun_seed_frame [OF s(7), of "''temperature''"]
      aliyun_enable_thinking_frame [OF s(8), of "''temperature''"]
    by simp
  then have "float_field v ''temperature'' (\<lambda>r. 0 \<le> r \<and> r \<le> 1)
      = float_field v3 ''temperature'' (\<lambda>r. 0 \<le> r \<and> r \<le> 1)"
    by (rule float_field_cong)
  then show "float_field v ''temperature'' (\<lambda>r. 0 \<le> r \<and> r \<le> 1)"
    using aliyun_temperature_post [OF s(3)] by simp
  have "map_of v ''top_p'' = map_of v4 ''top_p''"
    using aliyun_top_k_frame [OF s(5), of "''top_p''"]
      stream_flag_frame [OF s(6), of "''top_p''"]
      aliyun_seed_frame [OF s(7), of "''top_p''"]
      aliyun_enable_thinking_frame [OF s(8), of "''top_p''"]
    by simp
  then have "float_field v ''top_p'' (\<lambda>r. 0 \<le> r \<and> r \<le> 1)
      = float_field v4 ''top_p'' (\<lambda>r. 0 \<le> r \<and> r \<le> 1)"
    by (rule float_field_cong)
  then show "float_field v ''top_p'' (\<lambda>r. 0 \<le> r \<and> r \<le> 1)"
    using aliyun_top_p_post [OF s(4)] by simp
  have k: "map_of v ''top_k'' = map_of v5 ''top_k''"
    using stream_flag_frame [OF s(6), of "''top_k''"]
      aliyun_seed_frame [OF s(7), of "''top_k''"]
      aliyun_enable_thinking_frame [OF s(8), of "''top_k''"]
    by simp
  show "int_field v ''top_k'' (\<lambda>i. 1 \<le> i \<and> i \<le> 100)" if h: "has_key v ''top_k''"
  proof -
    from h k have "has_key v5 ''top_k''" by (simp add: has_key_def)
    then have "int_field v5 ''top_k'' (\<lambda>i. 1 \<le> i \<and> i \<le> 100)"
      by (rule aliyun_top_k_post [OF s(5)])
    with int_field_cong [OF k] show ?thesis by simp
  qed
qed

lemma deepseek_validate_bounds:
  assumes "deepseek_validate_parameters bi cfg model ps = Inr v"
  shows "int_field v ''max_tokens'' (\<lambda>i. i \<le> 32768)"
    and "model \<noteq> ''deepseek-reasoner'' \<Longrightarrow>
           float_field v ''temperature'' (\<lambda>r. 0 \<le> r \<and> r \<le> 2)"
    and "model \<noteq> ''deepseek-reasoner'' \<Longrightarrow>
           float_field v ''top_p'' (\<lambda>r. 0 \<le> r \<and> r \<le> 1)"
proof -
  from assms obtain v1 v2 v3 v4 where
    s: "deepseek_messages ps (setitem ps ''model'' (PStr model)) = Inr v1"
       "deepseek_max_tokens bi v1 = Inr v2"
       "deepseek_temperature bi model v2 = Inr v3"
       "deepseek_top_p bi model v3 = Inr v4"
       "stream_flag v4 = Inr v"
    unfolding deepseek_validate_Inr by blast
  have m: "map_of v ''max_tokens'' = map_of v2 ''max_tokens''"
    using deepseek_temperature_frame [OF s(3), of "''max_tokens''"]
      deepseek_top_p_frame [OF s(4), of "''max_tokens''"]
      stream_flag_frame [OF s(5), of "''max_tokens''"]
    by simp
  show "int_field v ''max_tokens'' (\<lambda>i. i \<le> 32768)"
    using int_field_cong [OF m] deepseek_max_tokens_post [OF s(2)] by simp
  have t: "map_of v ''temperature'' = map_of v3 ''temperature''"
    using deepseek_top_p_frame [OF s(4), of "''temperature''"]
      stream_flag_frame [OF s(5), of "''temperature''"]
    by simp
  show "float_field v ''temperature'' (\<lambda>r. 0 \<le> r \<and> r \<le> 2)"
    if "model \<noteq> ''deepseek-reasoner''"
    using float_field_cong [OF t] deepseek_temperature_post [OF s(3) that] by simp
  have p: "map_of v ''top_p'' = map_of v4 ''top_p''"
    using stream_flag_frame [OF s(5), of "''top_p''"] by simp
  show "float_field v ''top_p'' (\<lambda>r. 0 \<le> r \<and> r \<le> 1)"
    if "model \<noteq> ''deepseek-reasoner''"
    using float_field_cong [OF p] deepseek_top_p_post [OF s(4) that] by simp
qed

text \<open>The equations that evaluate validation on a concrete input.\<close>

lemmas validate_defs =
  aliyun_validate_parameters_def deepseek_validate_parameters_def
  aliyun_supported_models_def deepseek_supported_models_def
  aliyun_messages_def aliyun_max_tokens_def aliyun_temperature_def aliyun_top_p_def
  aliyun_top_k_def aliyun_seed_def aliyun_enable_thinking_def stream_flag_def
  deepseek_messages_def deepseek_max_tokens_def deepseek_temperature_def deepseek_top_p_def
  conv_int_def conv_float_def getitem_def setitem_def delitem_def has_key_def
  user_message_def py_min_def py_max_def no_strings_def
  log_validated_def repr_exc_unfold small_int_digits

section \<open>Validation: missing input\<close>

text \<open>
  C7. For a supported model of either provider, parameters that hold neither
  \<^verbatim>\<open>prompt\<close> nor \<^verbatim>\<open>messages\<close> are rejected with the missing-input error
  (\<^verbatim>\<open>ValueError("Parameter 'prompt' or 'messages' is required")\<close>); no validated
  mapping is returned.
\<close>

theorem missing_input_rejected:
  assumes "model \<in> set (supported_models prov cfg)"
    and "\<not> has_key parameters ''prompt''" and "\<not> has_key parameters ''messages''"
  shows "validate_parameters prov bi cfg model parameters = Inl (ValueError missing_msg)"
  using assms
  by (cases prov)
     (simp_all add: aliyun_validate_parameters_def deepseek_validate_parameters_def)

theorem missing_input_rejected_witness:
  "validate_parameters Aliyun no_strings [] ''qwen-turbo''
       [(''temperature'', PFloat (Finite 1))] = Inl (ValueError missing_msg)
   \<and> validate_parameters DeepSeek no_strings [] ''deepseek-reasoner'' []
       = Inl (ValueError missing_msg)"
  using missing_input_rejected [of "''qwen-turbo''" Aliyun "[]"
          "[(''temperature'', PFloat (Finite 1))]" no_strings]
        missing_input_rejected [of "''deepseek-reasoner''" DeepSeek "[]" "[]" no_strings]
  by (simp add: aliyun_supported_models_def deepseek_supported_models_def has_key_def)

section \<open>Validation: custom parameters survive\<close>

text \<open>
  C6. When validation succeeds, with either provider, every key of the caller's
  parameters outside the known core set (model, messages, prompt, max_tokens,
  temperature, top_p, top_k, stream, seed, enable_thinking) is in the validated
  output with the value the caller gave it; a key that is absent from the input
  and outside the core set is absent from the output.
\<close>

theorem unknown_keys_preserved:
  assumes "validate_parameters prov bi cfg model parameters = Inr validated"
    and "k \<notin> set core_keys"
  shows "map_of validated k = map_of parameters k"
proof (cases prov)
  case Aliyun
  with assms show ?thesis
    using aliyun_validate_frame [of bi cfg model parameters validated k]
    by (simp add: core_keys_def)
next
  case DeepSeek
  with assms show ?thesis
    using deepseek_validate_frame [of bi cfg model parameters validated k]
    by (simp add: core_keys_def)
qed

theorem unknown_keys_preserved_witness:
  "validate_parameters Aliyun no_strings [] ''qwen-turbo''
     [(''prompt'', PStr ''hi''), (''user_tag'', PStr ''abc'')]
   = Inr [(''prompt'', PStr ''hi''), (''user_tag'', PStr ''abc''),
          (''model'', PStr ''qwen-turbo''),
          (''messages'', PList [PDict [(''role'', PStr ''user''), (''content'', PStr ''hi'')]]),
          (''max_tokens'', PInt 2048),
          (''temperature'', PFloat (Finite (7 / 10))),
          (''top_p'', PFloat (Finite (9 / 10))),
          (''stream'', PBool False),
          (''enable_thinking'', PBool False)]
   \<and> ''user_tag'' \<notin> set core_keys
   \<and> map_of [(''prompt'', PStr ''hi''), (''user_tag'', PStr ''abc''),
          (''model'', PStr ''qwen-turbo''),
          (''messages'', PList [PDict [(''role'', PStr ''user''), (''content'', PStr ''hi'')]]),
          (''max_tokens'', PInt 2048),
          (''temperature'', PFloat (Finite (7 / 10))),
          (''top_p'', PFloat (Finite (9 / 10))),
          (''stream'', PBool False),
          (''enable_thinking'', PBool False)] ''user_tag'' = Some (PStr ''abc'')"
proof -
  have a: "validate_parameters Aliyun no_strings [] ''qwen-turbo''
     [(''prompt'', PStr ''hi''), (''user_tag'', PStr ''abc'')]
   = Inr [(''prompt'', PStr ''hi''), (''user_tag'', PStr ''abc''),
          (''model'', PStr ''qwen-turbo''),
          (''messages'', PList [PDict [(''role'', PStr ''user''), (''content'', PStr ''hi'')]]),
          (''max_tokens'', PInt 2048),
          (''temperature'', PFloat (Finite (7 / 10))),
          (''top_p'', PFloat (Finite (9 / 10))),
          (''stream'', PBool False),
          (''enable_thinking'', PBool False)]"
    by (simp add: validate_defs)
  have b: "''user_tag'' \<notin> set core_keys"
    by (simp add: core_keys_def)
  from unknown_keys_preserved [OF a b] a b show ?thesis by simp
qed

section \<open>Validation: bounds of the numeric fields\<close>

text \<open>
  C2, as the code has it. When validation succeeds:
  with Aliyun, \<^verbatim>\<open>max_tokens\<close> is an int of at most 6000, \<^verbatim>\<open>temperature\<close>
  and \<^verbatim>\<open>top_p\<close> are finite floats in \<open>[0, 1]\<close>, and \<^verbatim>\<open>top_k\<close>, when
  present, is an int in \<open>[1, 100]\<close>;
  with DeepSeek, \<^verbatim>\<open>max_tokens\<close> is an int of at most 32768 and, for a model
  other than \<^verbatim>\<open>deepseek-reasoner\<close>, \<^verbatim>\<open>temperature\<close> is a finite float in
  \<open>[0, 2]\<close> and \<^verbatim>\<open>top_p\<close> one in \<open>[0, 1]\<close>.
  \<^verbatim>\<open>max_tokens\<close> has an upper bound only.
\<close>

theorem validated_within_bounds:
  assumes "validate_parameters prov bi cfg model parameters = Inr validated"
  shows "(prov = Aliyun \<longrightarrow>
            int_field validated ''max_tokens'' (at_most 6000) \<and>
            float_field validated ''temperature'' (float_between 0 1) \<and>
            float_field validated ''top_p'' (float_between 0 1) \<and>
            (has_key validated ''top_k'' \<longrightarrow>
               int_field validated ''top_k'' (int_between 1 100)))
       \<and> (prov = DeepSeek \<longrightarrow>
            int_field validated ''max_tokens'' (at_most 32768) \<and>
            (model \<noteq> ''deepseek-reasoner'' \<longrightarrow>
               float_field validated ''temperature'' (float_between 0 2) \<and>
               float_field validated ''top_p'' (float_between 0 1)))"
  unfolding at_most_def int_between_def float_between_def
  using assms aliyun_validate_bounds [of bi cfg model parameters validated]
    deepseek_validate_bounds [of bi cfg model parameters validated]
  by (cases prov) simp_all

theorem validated_within_bounds_witness:
  "validate_parameters Aliyun no_strings [] ''qwen-turbo''
     [(''prompt'', PStr ''hi''), (''temperature'', PFloat (Finite 5)),
      (''max_tokens'', PInt 100000), (''top_k'', PInt 0)]
   = Inr [(''prompt'', PStr ''hi''), (''temperature'', PFloat (Finite 1)),
          (''max_tokens'', PInt 6000), (''top_k'', PInt 1),
          (''model'', PStr ''qwen-turbo''),
          (''messages'', PList [PDict [(''role'', PStr ''user''), (''content'', PStr ''hi'')]]),
          (''top_p'', PFloat (Finite (9 / 10))),
          (''stream'', PBool False),
          (''enable_thinking'', PBool False)]
   \<and> int_field [(''prompt'', PStr ''hi''), (''temperature'', PFloat (Finite 1)),
          (''max_tokens'', PInt 6000), (''top_k'', PInt 1),
          (''model'', PStr ''qwen-turbo''),
          (''messages'', PList [PDict [(''role'', PStr ''user''), (''content'', PStr ''hi'')]]),
          (''top_p'', PFloat (Finite (9 / 10))),
          (''stream'', PBool False),
          (''enable_thinking'', PBool False)] ''top_k'' (int_between 1 100)
   \<and> validate_parameters DeepSeek no_strings [] ''deepseek-chat''
     [(''messages'', PList []), (''temperature'', PFloat (Finite 5)), (''top_p'', PFloat NaN)]
   = Inr [(''messages'', PList []), (''temperature'', PFloat (Finite 2)),
          (''top_p'', PFloat (Finite 0)),
          (''model'', PStr ''deepseek-chat''),
          (''max_tokens'', PInt 4096),
          (''stream'', PBool False)]
   \<and> float_field [(''messages'', PList []), (''temperature'', PFloat (Finite 2)),
          (''top_p'', PFloat (Finite 0)),
          (''model'', PStr ''deepseek-chat''),
          (''max_tokens'', PInt 4096),
          (''stream'', PBool False)] ''temperature'' (float_between 0 2)"
proof -
  have a: "validate_parameters Aliyun no_strings [] ''qwen-turbo''
     [(''prompt'', PStr ''hi''), (''temperature'', PFloat (Finite 5)),
      (''max_tokens'', PInt 100000), (''top_k'', PInt 0)]
   = Inr [(''prompt'', PStr ''hi''), (''temperature'', PFloat (Finite 1)),
          (''max_tokens'', PInt 6000), (''top_k'', PInt 1),
          (''model'', PStr ''qwen-turbo''),
          (''messages'', PList [PDict [(''role'', PStr ''user''), (''content'', PStr ''hi'')]]),
          (''top_p'', PFloat (Finite (9 / 10))),
          (''stream'', PBool False),
          (''enable_thinking'', PBool False)]"
    by (simp add: validate_defs)
  have b: "validate_parameters DeepSeek no_strings [] ''deepseek-chat''
     [(''messages'', PList []), (''temperature'', PFloat (Finite 5)), (''top_p'', PFloat NaN)]
   = Inr [(''messages'', PList []), (''temperature'', PFloat (Finite 2)),
          (''top_p'', PFloat (Finite 0)),
          (''model'', PStr ''deepseek-chat''),
          (''max_tokens'', PInt 4096),
          (''stream'', PBool False)]"
    by (simp add: validate_defs)
  from validated_within_bounds [OF a] validated_within_bounds [OF b] a b
  show ?thesis by (simp add: has_key_def)
qed

text \<open>
  The claim as the specification states it fails twice: for
  \<^verbatim>\<open>deepseek-reasoner\<close> the caller's \<^verbatim>\<open>temperature = 5.0\<close> passes through
  above DeepSeek's maximum 2.0, and a negative \<^verbatim>\<open>max_tokens\<close> passes through
  with Aliyun, which takes only the minimum with 6000.
\<close>

theorem validated_within_bounds_counterexample:
  "validate_parameters DeepSeek no_strings [] ''deepseek-reasoner''
     [(''prompt'', PStr ''hi''), (''temperature'', PFloat (Finite 5))]
   = Inr [(''temperature'', PFloat (Finite 5)),
          (''model'', PStr ''deepseek-reasoner''),
          (''messages'', PList [PDict [(''role'', PStr ''user''), (''content'', PStr ''hi'')]]),
          (''max_tokens'', PInt 4096),
          (''stream'', PBool False)]
   \<and> \<not> float_field [(''temperature'', PFloat (Finite 5)),
          (''model'', PStr ''deepseek-reasoner''),
          (''messages'', PList [PDict [(''role'', PStr ''user''), (''content'', PStr ''hi'')]]),
          (''max_tokens'', PInt 4096),
          (''stream'', PBool False)] ''temperature'' (float_between 0 2)
   \<and> validate_parameters Aliyun no_strings [] ''qwen-turbo''
     [(''prompt'', PStr ''hi''), (''max_tokens'', PInt (- 5))]
   = Inr [(''prompt'', PStr ''hi''), (''max_tokens'', PInt (- 5)),
          (''model'', PStr ''qwen-turbo''),
          (''messages'', PList [PDict [(''role'', PStr ''user''), (''content'', PStr ''hi'')]]),
          (''temperature'', PFloat (Finite (7 / 10))),
          (''top_p'', PFloat (Finite (9 / 10))),
          (''stream'', PBool False),
          (''enable_thinking'', PBool False)]"
  by (simp add: validate_defs float_field_def float_between_def)

section \<open>Validation: the reasoning model\<close>

lemma deepseek_reasoner_temperature:
  "deepseek_temperature bi ''deepseek-reasoner'' d = Inr d"
  by (simp add: deepseek_temperature_def)

lemma deepseek_reasoner_top_p:
  "deepseek_top_p bi ''deepseek-reasoner'' d = Inr d"
  by (simp add: deepseek_top_p_def)

text \<open>
  C3, as the code has it. For \<^verbatim>\<open>deepseek-reasoner\<close>, validation neither
  defaults nor clamps \<^verbatim>\<open>temperature\<close> and \<^verbatim>\<open>top_p\<close>: when it succeeds,
  each of the two fields is in the output exactly when the caller supplied it,
  with the caller's value. So a field the caller left out stays absent.
\<close>

theorem reasoner_keeps_sampling_fields:
  assumes "validate_parameters DeepSeek bi cfg ''deepseek-reasoner'' parameters = Inr validated"
  shows "map_of validated ''temperature'' = map_of parameters ''temperature''
       \<and> map_of validated ''top_p'' = map_of parameters ''top_p''"
proof -
  from assms have
    "deepseek_validate_parameters bi cfg ''deepseek-reasoner'' parameters = Inr validated"
    by simp
  then obtain v1 v2 v3 v4 where
    s: "deepseek_messages parameters (setitem parameters ''model'' (PStr ''deepseek-reasoner''))
          = Inr v1"
       "deepseek_max_tokens bi v1 = Inr v2"
       "deepseek_temperature bi ''deepseek-reasoner'' v2 = Inr v3"
       "deepseek_top_p bi ''deepseek-reasoner'' v3 = Inr v4"
       "stream_flag v4 = Inr validated"
    unfolding deepseek_validate_Inr by blast
  have e: "v3 = v2" "v4 = v3"
    using s(3,4) by (simp_all add: deepseek_reasoner_temperature deepseek_reasoner_top_p)
  have "map_of validated ''temperature'' = map_of parameters ''temperature''"
    using deepseek_messages_frame [OF s(1), of "''temperature''"]
      deepseek_max_tokens_frame [OF s(2), of "''temperature''"]
      stream_flag_frame [OF s(5), of "''temperature''"] e
    by (simp add: map_of_setitem)
  moreover have "map_of validated ''top_p'' = map_of parameters ''top_p''"
    using deepseek_messages_frame [OF s(1), of "''top_p''"]
      deepseek_max_tokens_frame [OF s(2), of "''top_p''"]
      stream_flag_frame [OF s(5), of "''top_p''"] e
    by (simp add: map_of_setitem)
  ultimately show ?thesis by simp
qed

theorem reasoner_keeps_sampling_fields_witness:
  "validate_parameters DeepSeek no_strings [] ''deepseek-reasoner''
     [(''messages'', PList []), (''top_p'', PFloat (Finite 3))]
   = Inr [(''messages'', PList []), (''top_p'', PFloat (Finite 3)),
          (''model'', PStr ''deepseek-reasoner''),
          (''max_tokens'', PInt 4096),
          (''stream'', PBool False)]
   \<and> map_of [(''messages'', PList []), (''top_p'', PFloat (Finite 3)),
          (''model'', PStr ''deepseek-reasoner''),
          (''max_tokens'', PInt 4096),
          (''stream'', PBool False)] ''temperature'' = None
   \<and> map_of [(''messages'', PList []), (''top_p'', PFloat (Finite 3)),
          (''model'', PStr ''deepseek-reasoner''),
          (''max_tokens'', PInt 4096),
          (''stream'', PBool False)] ''top_p'' = Some (PFloat (Finite 3))"
proof -
  have a: "validate_parameters DeepSeek no_strings [] ''deepseek-reasoner''
     [(''messages'', PList []), (''top_p'', PFloat (Finite 3))]
   = Inr [(''messages'', PList []), (''top_p'', PFloat (Finite 3)),
          (''model'', PStr ''deepseek-reasoner''),
          (''max_tokens'', PInt 4096),
          (''stream'', PBool False)]"
    by (simp add: validate_defs)
  from reasoner_keeps_sampling_fields [OF a] a show ?thesis by simp
qed

text \<open>
  The claim as stated fails: a \<^verbatim>\<open>temperature\<close> and a \<^verbatim>\<open>top_p\<close> that the
  caller supplies for \<^verbatim>\<open>deepseek-reasoner\<close> are retained in the output.
\<close>

theorem reasoner_fields_absent_counterexample:
  "validate_parameters DeepSeek no_strings [] ''deepseek-reasoner''
     [(''prompt'', PStr ''hi''), (''temperature'', PFloat (Finite (1 / 2))),
      (''top_p'', PFloat (Finite (1 / 4)))]
   = Inr [(''temperature'', PFloat (Finite (1 / 2))), (''top_p'', PFloat (Finite (1 / 4))),
          (''model'', PStr ''deepseek-reasoner''),
          (''messages'', PList [PDict [(''role'', PStr ''user''), (''content'', PStr ''hi'')]]),
          (''max_tokens'', PInt 4096),
          (''stream'', PBool False)]
   \<and> has_key [(''temperature'', PFloat (Finite (1 / 2))), (''top_p'', PFloat (Finite (1 / 4))),
          (''model'', PStr ''deepseek-reasoner''),
          (''messages'', PList [PDict [(''role'', PStr ''user''), (''content'', PStr ''hi'')]]),
          (''max_tokens'', PInt 4096),
          (''stream'', PBool False)] ''temperature''
   \<and> has_key [(''temperature'', PFloat (Finite (1 / 2))), (''top_p'', PFloat (Finite (1 / 4))),
          (''model'', PStr ''deepseek-reasoner''),
          (''messages'', PList [PDict [(''role'', PStr ''user''), (''content'', PStr ''hi'')]]),
          (''max_tokens'', PInt 4096),
          (''stream'', PBool False)] ''top_p''"
  by (simp add: validate_defs)

section \<open>Validation: messages from a prompt\<close>

lemma aliyun_messages_from_prompt:
  assumes "map_of ps ''prompt'' = Some p" and "\<not> has_key ps ''messages''"
  shows "aliyun_messages ps d = Inr (setitem d ''messages'' (PList [user_message p]))"
  using assms by (simp add: aliyun_messages_def has_key_def getitem_def)

lemma deepseek_messages_from_prompt:
  assumes "map_of ps ''prompt'' = Some p" and "\<not> has_key ps ''messages''"
  shows "\<exists>d'. deepseek_messages ps d = Inr d'
           \<and> map_of d' ''messages'' = Some (PList [user_message p])
           \<and> map_of d' ''prompt'' = None"
  using assms
  by (simp add: deepseek_messages_def has_key_def getitem_def Let_def
        map_of_setitem map_of_delitem)

text \<open>
  C9. When the caller supplies \<^verbatim>\<open>prompt\<close> and no \<^verbatim>\<open>messages\<close> and validation
  succeeds, the output's \<^verbatim>\<open>messages\<close> is the one-element list holding
  \<^verbatim>\<open>{"role": "user", "content": prompt}\<close>. The DeepSeek output has no
  \<^verbatim>\<open>prompt\<close> key; the Aliyun output still has it, with the caller's value.
\<close>

theorem prompt_becomes_user_message:
  assumes "validate_parameters prov bi cfg model parameters = Inr validated"
    and "map_of parameters ''prompt'' = Some p"
    and "\<not> has_key parameters ''messages''"
  shows "map_of validated ''messages''
           = Some (PList [PDict [(''role'', PStr ''user''), (''content'', p)]])
       \<and> (prov = DeepSeek \<longrightarrow> \<not> has_key validated ''prompt'')
       \<and> (prov = Aliyun \<longrightarrow> map_of validated ''prompt'' = Some p)"
proof (cases prov)
  case Aliyun
  with assms(1) have "aliyun_validate_parameters bi cfg model parameters = Inr validated"
    by simp
  then obtain v1 v2 v3 v4 v5 v6 v7 where
    s: "aliyun_messages parameters (setitem parameters ''model'' (PStr model)) = Inr v1"
       "aliyun_max_tokens bi v1 = Inr v2"
       "aliyun_temperature bi v2 = Inr v3"
       "aliyun_top_p bi v3 = Inr v4"
       "aliyun_top_k bi v4 = Inr v5"
       "stream_flag v5 = Inr v6"
       "aliyun_seed bi v6 = Inr v7"
       "aliyun_enable_thinking v7 = Inr validated"
    unfolding aliyun_validate_Inr by blast
  have v1: "v1 = setitem (setitem parameters ''model'' (PStr model)) ''messages''
                  (PList [user_message p])"
    using s(1) aliyun_messages_from_prompt [OF assms(2,3)] by simp
  have "map_of validated ''messages'' = map_of v1 ''messages''"
    using aliyun_max_tokens_frame [OF s(2), of "''messages''"]
      aliyun_temperature_frame [OF s(3), of "''messages''"]
      aliyun_top_p_frame [OF s(4), of "''messages''"]
      aliyun_top_k_frame [OF s(5), of "''messages''"]
      stream_flag_frame [OF s(6), of "''messages''"]
      aliyun_seed_frame [OF s(7), of "''messages''"]
      aliyun_enable_thinking_frame [OF s(8), of "''messages''"]
    by simp
  moreover have "map_of validated ''prompt'' = map_of v1 ''prompt''"
    using aliyun_max_tokens_frame [OF s(2), of "''prompt''"]
      aliyun_temperature_frame [OF s(3), of "''prompt''"]
      aliyun_top_p_frame [OF s(4), of "''prompt''"]
      aliyun_top_k_frame [OF s(5), of "''prompt''"]
      stream_flag_frame [OF s(6), of "''prompt''"]
      aliyun_seed_frame [OF s(7), of "''prompt''"]
      aliyun_enable_thinking_frame [OF s(8), of "''prompt''"]
    by simp
  ultimately show ?thesis
    using Aliyun v1 assms(2) by (simp add: map_of_setitem user_message_def)
next
  case DeepSeek
  with assms(1) have "deepseek_validate_parameters bi cfg model parameters = Inr validated"
    by simp
  then obtain v1 v2 v3 v4 where
    s: "deepseek_messages parameters (setitem parameters ''model'' (PStr model)) = Inr v1"
       "deepseek_max_tokens bi v1 = Inr v2"
       "deepseek_temperature bi model v2 = Inr v3"
       "deepseek_top_p bi model v3 = Inr v4"
       "stream_flag v4 = Inr validated"
    unfolding deepseek_validate_Inr by blast
  have v1: "map_of v1 ''messages'' = Some (PList [user_message p])"
      "map_of v1 ''prompt'' = None"
    using s(1) deepseek_messages_from_prompt [OF assms(2,3),
        of "setitem parameters ''model'' (PStr model)"]
    by auto
  have "map_of validated ''messages'' = map_of v1 ''messages''"
    using deepseek_max_tokens_frame [OF s(2), of "''messages''"]
      deepseek_temperature_frame [OF s(3), of "''messages''"]
      deepseek_top_p_frame [OF s(4), of "''messages''"]
      stream_flag_frame [OF s(5), of "''messages''"]
    by simp
  moreover have "map_of validated ''prompt'' = map_of v1 ''prompt''"
    using deepseek_max_tokens_frame [OF s(2), of "''prompt''"]
      deepseek_temperature_frame [OF s(3), of "''prompt''"]
      deepseek_top_p_frame [OF s(4), of "''prompt''"]
      stream_flag_frame [OF s(5), of "''prompt''"]
    by simp
  ultimately show ?thesis
    using DeepSeek v1 by (simp add: has_key_def user_message_def)
qed

theorem prompt_becomes_user_message_witness:
  "validate_parameters Aliyun no_strings [] ''qwen-plus'' [(''prompt'', PStr ''hi'')]
   = Inr [(''prompt'', PStr ''hi''),
          (''model'', PStr ''qwen-plus''),
          (''messages'', PList [PDict [(''role'', PStr ''user''), (''content'', PStr ''hi'')]]),
          (''max_tokens'', PInt 2048),
          (''temperature'', PFloat (Finite (7 / 10))),
          (''top_p'', PFloat (Finite (9 / 10))),
          (''stream'', PBool False),
          (''enable_thinking'', PBool False)]
   \<and> validate_parameters DeepSeek no_strings [] ''deepseek-chat'' [(''prompt'', PStr ''hi'')]
   = Inr [(''model'', PStr ''deepseek-chat''),
          (''messages'', PList [PDict [(''role'', PStr ''user''), (''content'', PStr ''hi'')]]),
          (''max_tokens'', PInt 4096),
          (''temperature'', PFloat (Finite (7 / 10))),
          (''top_p'', PFloat (Finite (9 / 10))),
          (''stream'', PBool False)]
   \<and> \<not> has_key [(''model'', PStr ''deepseek-chat''),
          (''messages'', PList [PDict [(''role'', PStr ''user''), (''content'', PStr ''hi'')]]),
          (''max_tokens'', PInt 4096),
          (''temperature'', PFloat (Finite (7 / 10))),
          (''top_p'', PFloat (Finite (9 / 10))),
          (''stream'', PBool False)] ''prompt''"
proof -
  have a: "validate_parameters Aliyun no_strings [] ''qwen-plus'' [(''prompt'', PStr ''hi'')]
   = Inr [(''prompt'', PStr ''hi''),
          (''model'', PStr ''qwen-plus''),
          (''messages'', PList [PDict [(''role'', PStr ''user''), (''content'', PStr ''hi'')]]),
          (''max_tokens'', PInt 2048),
          (''temperature'', PFloat (Finite (7 / 10))),
          (''top_p'', PFloat (Finite (9 / 10))),
          (''stream'', PBool False),
          (''enable_thinking'', PBool False)]"
    by (simp add: validate_defs)
  have b: "validate_parameters DeepSeek no_strings [] ''deepseek-chat'' [(''prompt'', PStr ''hi'')]
   = Inr [(''model'', PStr ''deepseek-chat''),
          (''messages'', PList [PDict [(''role'', PStr ''user''), (''content'', PStr ''hi'')]]),
          (''max_tokens'', PInt 4096),
          (''temperature'', PFloat (Finite (7 / 10))),
          (''top_p'', PFloat (Finite (9 / 10))),
          (''stream'', PBool False)]"
    by (simp add: validate_defs)
  have c: "map_of [(''prompt'', PStr ''hi'')] ''prompt'' = Some (PStr ''hi'')"
    and d: "\<not> has_key [(''prompt'', PStr ''hi'')] ''messages''"
    by (simp_all add: has_key_def)
  from prompt_becomes_user_message [OF a c d] prompt_becomes_user_message [OF b c d] a b
  show ?thesis by simp
qed

section \<open>Validation: when it succeeds\<close>

lemma int_ok_cong: "map_of d' k = map_of d k \<Longrightarrow> int_ok bi d' k = int_ok bi d k"
  by (simp add: int_ok_def)

lemma float_ok_cong: "map_of d' k = map_of d k \<Longrightarrow> float_ok bi d' k = float_ok bi d k"
  by (simp add: float_ok_def)

lemma not_isl_iff: "\<not> isl x \<longleftrightarrow> (\<exists>y. x = Inr y)"
  by (cases x) simp_all

lemma conv_int_ok: "(\<exists>d'. conv_int bi k f d = Inr d') \<longleftrightarrow> has_key d k \<and> int_ok bi d k"
  by (cases "map_of d k") (auto simp: conv_int_Inr has_key_def int_ok_def not_isl_iff)

lemma conv_float_ok: "(\<exists>d'. conv_float bi k f d = Inr d') \<longleftrightarrow> has_key d k \<and> float_ok bi d k"
  by (cases "map_of d k") (auto simp: conv_float_Inr has_key_def float_ok_def not_isl_iff)

lemma absent_int_ok: "\<not> has_key d k \<Longrightarrow> int_ok bi d k"
  by (simp add: has_key_def int_ok_def)

lemma absent_float_ok: "\<not> has_key d k \<Longrightarrow> float_ok bi d k"
  by (simp add: has_key_def float_ok_def)

lemma aliyun_max_tokens_ok:
  "(\<exists>d'. aliyun_max_tokens bi d = Inr d') \<longleftrightarrow> int_ok bi d ''max_tokens''"
  using conv_int_ok [of bi "''max_tokens''" _ d] absent_int_ok [of d "''max_tokens''" bi]
  by (auto simp: aliyun_max_tokens_def)

lemma aliyun_temperature_ok:
  "(\<exists>d'. aliyun_temperature bi d = Inr d') \<longleftrightarrow> float_ok bi d ''temperature''"
  using conv_float_ok [of bi "''temperature''" _ d] absent_float_ok [of d "''temperature''" bi]
  by (auto simp: aliyun_temperature_def)

lemma aliyun_top_p_ok:
  "(\<exists>d'. aliyun_top_p bi d = Inr d') \<longleftrightarrow> float_ok bi d ''top_p''"
  using conv_float_ok [of bi "''top_p''" _ d] absent_float_ok [of d "''top_p''" bi]
  by (auto simp: aliyun_top_p_def)

lemma aliyun_top_k_ok:
  "(\<exists>d'. aliyun_top_k bi d = Inr d') \<longleftrightarrow> int_ok bi d ''top_k''"
  using conv_int_ok [of bi "''top_k''" _ d] absent_int_ok [of d "''top_k''" bi]
  by (auto simp: aliyun_top_k_def)

lemma aliyun_seed_ok:
  "(\<exists>d'. aliyun_seed bi d = Inr d') \<longleftrightarrow> int_ok bi d ''seed''"
  using conv_int_ok [of bi "''seed''" _ d] absent_int_ok [of d "''seed''" bi]
  by (auto simp: aliyun_seed_def)

lemma stream_flag_ok: "\<exists>d'. stream_flag d = Inr d'"
  by (cases "map_of d ''stream''") (simp_all add: stream_flag_def has_key_def getitem_def)

lemma aliyun_enable_thinking_ok: "\<exists>d'. aliyun_enable_thinking d = Inr d'"
  by (simp add: aliyun_enable_thinking_def)

lemma aliyun_messages_ok: "\<exists>d'. aliyun_messages ps d = Inr d'"
  by (cases "map_of ps ''messages''"; cases "map_of ps ''prompt''")
     (simp_all add: aliyun_messages_def has_key_def getitem_def)

lemma deepseek_messages_ok: "\<exists>d'. deepseek_messages ps d = Inr d'"
  by (cases "map_of ps ''messages''"; cases "map_of ps ''prompt''")
     (simp_all add: deepseek_messages_def has_key_def getitem_def Let_def)

lemma deepseek_max_tokens_ok:
  "(\<exists>d'. deepseek_max_tokens bi d = Inr d') \<longleftrightarrow> int_ok bi d ''max_tokens''"
  using conv_int_ok [of bi "''max_tokens''" _ d] absent_int_ok [of d "''max_tokens''" bi]
  by (auto simp: deepseek_max_tokens_def)

lemma deepseek_temperature_ok:
  "(\<exists>d'. deepseek_temperature bi model d = Inr d') \<longleftrightarrow>
     (model \<noteq> ''deepseek-reasoner'' \<longrightarrow> float_ok bi d ''temperature'')"
  using conv_float_ok [of bi "''temperature''" _ d] absent_float_ok [of d "''temperature''" bi]
  by (auto simp: deepseek_temperature_def)

lemma deepseek_top_p_ok:
  "(\<exists>d'. deepseek_top_p bi model d = Inr d') \<longleftrightarrow>
     (model \<noteq> ''deepseek-reasoner'' \<longrightarrow> float_ok bi d ''top_p'')"
  using conv_float_ok [of bi "''top_p''" _ d] absent_float_ok [of d "''top_p''" bi]
  by (auto simp: deepseek_top_p_def)

lemma py_int_error: "py_int bi x = Inl e \<Longrightarrow> conversion_error e"
  by (induction bi x rule: py_int.induct)
     (auto simp: conversion_error_def split: option.splits)

lemma float_of_int_error: "float_of_int i = Inl e \<Longrightarrow> e = OverflowError"
  by (auto simp: float_of_int_def Let_def split: if_splits)

lemma py_float_error: "py_float bi x = Inl e \<Longrightarrow> conversion_error e"
  by (induction bi x rule: py_float.induct)
     (auto simp: conversion_error_def split: option.splits dest: float_of_int_error)

lemma conv_int_error:
  "conv_int bi k f d = Inl e \<Longrightarrow> has_key d k \<Longrightarrow> conversion_error e"
  by (cases "map_of d k")
     (auto simp: conv_int_def bind_exc_Inl getitem_def has_key_def dest: py_int_error)

lemma conv_float_error:
  "conv_float bi k f d = Inl e \<Longrightarrow> has_key d k \<Longrightarrow> conversion_error e"
  by (cases "map_of d k")
     (auto simp: conv_float_def bind_exc_Inl getitem_def has_key_def dest: py_float_error)

lemma aliyun_max_tokens_error: "aliyun_max_tokens bi d = Inl e \<Longrightarrow> conversion_error e"
  by (auto simp: aliyun_max_tokens_def split: if_splits dest: conv_int_error)

lemma aliyun_temperature_error: "aliyun_temperature bi d = Inl e \<Longrightarrow> conversion_error e"
  by (auto simp: aliyun_temperature_def split: if_splits dest: conv_float_error)

lemma aliyun_top_p_error: "aliyun_top_p bi d = Inl e \<Longrightarrow> conversion_error e"
  by (auto simp: aliyun_top_p_def split: if_splits dest: conv_float_error)

lemma aliyun_top_k_error: "aliyun_top_k bi d = Inl e \<Longrightarrow> conversion_error e"
  by (auto simp: aliyun_top_k_def split: if_splits dest: conv_int_error)

lemma aliyun_seed_error: "aliyun_seed bi d = Inl e \<Longrightarrow> conversion_error e"
  by (auto simp: aliyun_seed_def split: if_splits dest: conv_int_error)

lemma stream_flag_error: "stream_flag d \<noteq> Inl e"
  using stream_flag_ok [of d] by auto

lemma aliyun_enable_thinking_error: "aliyun_enable_thinking d \<noteq> Inl e"
  using aliyun_enable_thinking_ok [of d] by auto

lemma aliyun_messages_error: "aliyun_messages ps d \<noteq> Inl e"
  using aliyun_messages_ok [of ps d] by auto

lemma deepseek_messages_error: "deepseek_messages ps d \<noteq> Inl e"
  using deepseek_messages_ok [of ps d] by auto

lemma deepseek_max_tokens_error: "deepseek_max_tokens bi d = Inl e \<Longrightarrow> conversion_error e"
  by (auto simp: deepseek_max_tokens_def split: if_splits dest: conv_int_error)

lemma deepseek_temperature_error:
  "deepseek_temperature bi model d = Inl e \<Longrightarrow> conversion_error e"
  by (auto simp: deepseek_temperature_def split: if_splits dest: conv_float_error)

lemma deepseek_top_p_error: "deepseek_top_p bi model d = Inl e \<Longrightarrow> conversion_error e"
  by (auto simp: deepseek_top_p_def split: if_splits dest: conv_float_error)

lemma aliyun_validate_error:
  assumes "aliyun_validate_parameters bi cfg model ps = Inl e"
    and "model \<in> set (aliyun_supported_models cfg)"
    and "has_key ps ''prompt'' \<or> has_key ps ''messages''"
  shows "conversion_error e"
  using assms
  by (auto simp: aliyun_validate_parameters_def bind_exc_Inl
        aliyun_messages_error stream_flag_error aliyun_enable_thinking_error
      dest: aliyun_max_tokens_error aliyun_temperature_error aliyun_top_p_error
        aliyun_top_k_error aliyun_seed_error)

lemma aliyun_validate_succeeds:
  assumes c: "convertible Aliyun bi model ps"
    and m: "model \<in> set (aliyun_supported_models cfg)"
    and i: "has_key ps ''prompt'' \<or> has_key ps ''messages''"
  shows "\<exists>v. aliyun_validate_parameters bi cfg model ps = Inr v"
proof -
  obtain v1 where s1: "aliyun_messages ps (setitem ps ''model'' (PStr model)) = Inr v1"
    using aliyun_messages_ok by blast
  have "int_ok bi v1 ''max_tokens''"
    using c aliyun_messages_frame [OF s1, of "''max_tokens''"]
    by (simp add: int_ok_def map_of_setitem)
  then obtain v2 where s2: "aliyun_max_tokens bi v1 = Inr v2"
    using aliyun_max_tokens_ok by blast
  have "float_ok bi v2 ''temperature''"
    using c aliyun_messages_frame [OF s1, of "''temperature''"]
      aliyun_max_tokens_frame [OF s2, of "''temperature''"]
    by (simp add: float_ok_def map_of_setitem)
  then obtain v3 where s3: "aliyun_temperature bi v2 = Inr v3"
    using aliyun_temperature_ok by blast
  have "float_ok bi v3 ''top_p''"
    using c aliyun_messages_frame [OF s1, of "''top_p''"]
      aliyun_max_tokens_frame [OF s2, of "''top_p''"]
      aliyun_temperature_frame [OF s3, of "''top_p''"]
    by (simp add: float_ok_def map_of_setitem)
  then obtain v4 where s4: "aliyun_top_p bi v3 = Inr v4"
    using aliyun_top_p_ok by blast
  have "int_ok bi v4 ''top_k''"
    using c aliyun_messages_frame [OF s1, of "''top_k''"]
      aliyun_max_tokens_frame [OF s2, of "''top_k''"]
      aliyun_temperature_frame [OF s3, of "''top_k''"]
      aliyun_top_p_frame [OF s4, of "''top_k''"]
    by (simp add: int_ok_def map_of_setitem)
  then obtain v5 where s5: "aliyun_top_k bi v4 = Inr v5"
    using aliyun_top_k_ok by blast
  obtain v6 where s6: "stream_flag v5 = Inr v6"
    using stream_flag_ok by blast
  have "int_ok bi v6 ''seed''"
    using c aliyun_messages_frame [OF s1, of "''seed''"]
      aliyun_max_tokens_frame [OF s2, of "''seed''"]
      aliyun_temperature_frame [OF s3, of "''seed''"]
      aliyun_top_p_frame [OF s4, of "''seed''"]
      aliyun_top_k_frame [OF s5, of "''seed''"]
      stream_flag_frame [OF s6, of "''seed''"]
    by (simp add: int_ok_def map_of_setitem)
  then obtain v7 where s7: "aliyun_seed bi v6 = Inr v7"
    using aliyun_seed_ok by blast
  obtain v where s8: "aliyun_enable_thinking v7 = Inr v"
    using aliyun_enable_thinking_ok by blast
  from m i s1 s2 s3 s4 s5 s6 s7 s8
  have "aliyun_validate_parameters bi cfg model ps = Inr v"
    unfolding aliyun_validate_Inr by blast
  then show ?thesis ..
qed

lemma aliyun_validate_convertible:
  assumes "aliyun_validate_parameters bi cfg model ps = Inr v"
  shows "convertible Aliyun bi model ps"
proof -
  from assms obtain v1 v2 v3 v4 v5 v6 v7 where
    s: "aliyun_messages ps (setitem ps ''model'' (PStr model)) = Inr v1"
       "aliyun_max_tokens bi v1 = Inr v2"
       "aliyun_temperature bi v2 = Inr v3"
       "aliyun_top_p bi v3 = Inr v4"
       "aliyun_top_k bi v4 = Inr v5"
       "stream_flag v5 = Inr v6"
       "aliyun_seed bi v6 = Inr v7"
       "aliyun_enable_thinking v7 = Inr v"
    unfolding aliyun_validate_Inr by blast
  have "int_ok bi v1 ''max_tokens''"
    using s(2) aliyun_max_tokens_ok by blast
  then have a: "int_ok bi ps ''max_tokens''"
    using aliyun_messages_frame [OF s(1), of "''max_tokens''"]
    by (simp add: int_ok_def map_of_setitem)
  have "float_ok bi v2 ''temperature''"
    using s(3) aliyun_temperature_ok by blast
  then have b: "float_ok bi ps ''temperature''"
    using aliyun_messages_frame [OF s(1), of "''temperature''"]
      aliyun_max_tokens_frame [OF s(2), of "''temperature''"]
    by (simp add: float_ok_def map_of_setitem)
  have "float_ok bi v3 ''top_p''"
    using s(4) aliyun_top_p_ok by blast
  then have c: "float_ok bi ps ''top_p''"
    using aliyun_messages_frame [OF s(1), of "''top_p''"]
      aliyun_max_tokens_frame [OF s(2), of "''top_p''"]
      aliyun_temperature_frame [OF s(3), of "''top_p''"]
    by (simp add: float_ok_def map_of_setitem)
  have "int_ok bi v4 ''top_k''"
    using s(5) aliyun_top_k_ok by blast
  then have d: "int_ok bi ps ''top_k''"
    using aliyun_messages_frame [OF s(1), of "''top_k''"]
      aliyun_max_tokens_frame [OF s(2), of "''top_k''"]
      aliyun_temperature_frame [OF s(3), of "''top_k''"]
      aliyun_top_p_frame [OF s(4), of "''top_k''"]
    by (simp add: int_ok_def map_of_setitem)
  have "int_ok bi v6 ''seed''"
    using s(7) aliyun_seed_ok by blast
  then have e: "int_ok bi ps ''seed''"
    using aliyun_messages_frame [OF s(1), of "''seed''"]
      aliyun_max_tokens_frame [OF s(2), of "''seed''"]
      aliyun_temperature_frame [OF s(3), of "''seed''"]
      aliyun_top_p_frame [OF s(4), of "''seed''"]
      aliyun_top_k_frame [OF s(5), of "''seed''"]
      stream_flag_frame [OF s(6), of "''seed''"]
    by (simp add: int_ok_def map_of_setitem)
  from a b c d e show ?thesis by simp
qed

lemma deepseek_steps_convertible:
  assumes s: "deepseek_messages ps (setitem ps ''model'' (PStr model)) = Inr v1"
       "deepseek_max_tokens bi v1 = Inr v2"
       "deepseek_temperature bi model v2 = Inr v3"
       "deepseek_top_p bi model v3 = Inr v4"
       "stream_flag v4 = Inr v"
  shows "convertible DeepSeek bi model ps"
proof -
  have "int_ok bi v1 ''max_tokens''"
    using s(2) deepseek_max_tokens_ok by blast
  then have a: "int_ok bi ps ''max_tokens''"
    using deepseek_messages_frame [OF s(1), of "''max_tokens''"]
    by (simp add: int_ok_def map_of_setitem)
  have "model \<noteq> ''deepseek-reasoner'' \<longrightarrow> float_ok bi v2 ''temperature''"
    using s(3) deepseek_temperature_ok by blast
  then have b: "model \<noteq> ''deepseek-reasoner'' \<longrightarrow> float_ok bi ps ''temperature''"
    using deepseek_messages_frame [OF s(1), of "''temperature''"]
      deepseek_max_tokens_frame [OF s(2), of "''temperature''"]
    by (simp add: float_ok_def map_of_setitem)
  have "model \<noteq> ''deepseek-reasoner'' \<longrightarrow> float_ok bi v3 ''top_p''"
    using s(4) deepseek_top_p_ok by blast
  then have c: "model \<noteq> ''deepseek-reasoner'' \<longrightarrow> float_ok bi ps ''top_p''"
    using deepseek_messages_frame [OF s(1), of "''top_p''"]
      deepseek_max_tokens_frame [OF s(2), of "''top_p''"]
      deepseek_temperature_frame [OF s(3), of "''top_p''"]
    by (simp add: float_ok_def map_of_setitem)
  from a b c show ?thesis by simp
qed

lemma deepseek_validate_convertible:
  assumes "deepseek_validate_parameters bi cfg model ps = Inr v"
  shows "convertible DeepSeek bi model ps"
proof -
  from assms obtain v1 v2 v3 v4 where
    s: "deepseek_messages ps (setitem ps ''model'' (PStr model)) = Inr v1"
       "deepseek_max_tokens bi v1 = Inr v2"
       "deepseek_temperature bi model v2 = Inr v3"
       "deepseek_top_p bi model v3 = Inr v4"
       "stream_flag v4 = Inr v"
    unfolding deepseek_validate_Inr by blast
  then show ?thesis
    by (rule deepseek_steps_convertible)
qed

lemma aliyun_messages_value:
  assumes "aliyun_messages ps d = Inr d'"
    and "has_key ps ''prompt'' \<or> has_key ps ''messages''"
  shows "map_of d' ''messages'' =
           (case map_of ps ''messages'' of
              Some ms \<Rightarrow> Some ms
            | None \<Rightarrow> map_option (\<lambda>p. PList [PDict [(''role'', PStr ''user''),
                                                     (''content'', p)]])
                        (map_of ps ''prompt''))"
  using assms
  by (auto simp: aliyun_messages_def bind_exc_Inr getitem_Inr has_key_def map_of_setitem
        user_message_def split: if_splits option.splits)

lemma deepseek_messages_value:
  assumes "deepseek_messages ps d = Inr d'"
    and "has_key ps ''prompt'' \<or> has_key ps ''messages''"
  shows "map_of d' ''messages'' =
           (case map_of ps ''messages'' of
              Some ms \<Rightarrow> Some ms
            | None \<Rightarrow> map_option (\<lambda>p. PList [PDict [(''role'', PStr ''user''),
                                                     (''content'', p)]])
                        (map_of ps ''prompt''))"
  using assms
  by (auto simp: deepseek_messages_def bind_exc_Inr getitem_Inr has_key_def map_of_setitem
        map_of_delitem user_message_def Let_def split: if_splits option.splits)

lemma validated_messages:
  assumes "validate_parameters prov bi cfg model ps = Inr v"
  shows "map_of v ''messages'' =
           (case map_of ps ''messages'' of
              Some ms \<Rightarrow> Some ms
            | None \<Rightarrow> map_option (\<lambda>p. PList [PDict [(''role'', PStr ''user''),
                                                     (''content'', p)]])
                        (map_of ps ''prompt''))"
proof (cases prov)
  case Aliyun
  with assms have "aliyun_validate_parameters bi cfg model ps = Inr v"
    by simp
  then obtain v1 v2 v3 v4 v5 v6 v7 where
    i: "has_key ps ''prompt'' \<or> has_key ps ''messages''" and
    s: "aliyun_messages ps (setitem ps ''model'' (PStr model)) = Inr v1"
       "aliyun_max_tokens bi v1 = Inr v2"
       "aliyun_temperature bi v2 = Inr v3"
       "aliyun_top_p bi v3 = Inr v4"
       "aliyun_top_k bi v4 = Inr v5"
       "stream_flag v5 = Inr v6"
       "aliyun_seed bi v6 = Inr v7"
       "aliyun_enable_thinking v7 = Inr v"
    unfolding aliyun_validate_Inr by blast
  have "map_of v ''messages'' = map_of v1 ''messages''"
    using aliyun_max_tokens_frame [OF s(2), of "''messages''"]
      aliyun_temperature_frame [OF s(3), of "''messages''"]
      aliyun_top_p_frame [OF s(4), of "''messages''"]
      aliyun_top_k_frame [OF s(5), of "''messages''"]
      stream_flag_frame [OF s(6), of "''messages''"]
      aliyun_seed_frame [OF s(7), of "''messages''"]
      aliyun_enable_thinking_frame [OF s(8), of "''messages''"]
    by simp
  with aliyun_messages_value [OF s(1) i] show ?thesis
    by simp
next
  case DeepSeek
  with assms have "deepseek_validate_parameters bi cfg model ps = Inr v"
    by simp
  then obtain v1 v2 v3 v4 where
    i: "has_key ps ''prompt'' \<or> has_key ps ''messages''" and
    s: "deepseek_messages ps (setitem ps ''model'' (PStr model)) = Inr v1"
       "deepseek_max_tokens bi v1 = Inr v2"
       "deepseek_temperature bi model v2 = Inr v3"
       "deepseek_top_p bi model v3 = Inr v4"
       "stream_flag v4 = Inr v"
    unfolding deepseek_validate_Inr by blast
  have "map_of v ''messages'' = map_of v1 ''messages''"
    using deepseek_max_tokens_frame [OF s(2), of "''messages''"]
      deepseek_temperature_frame [OF s(3), of "''messages''"]
      deepseek_top_p_frame [OF s(4), of "''messages''"]
      stream_flag_frame [OF s(5), of "''messages''"]
    by simp
  with deepseek_messages_value [OF s(1) i] show ?thesis
    by simp
qed

subsection \<open>The log statement of the DeepSeek validator\<close>

lemma first_exc_None: "first_exc rs = None \<longleftrightarrow> (\<forall>r\<in>set rs. r = None)"
  by (induction rs rule: first_exc.induct) auto

lemma first_exc_Some: "first_exc rs = Some e \<Longrightarrow> Some e \<in> set rs"
  by (induction rs rule: first_exc.induct) auto

lemma repr_exc_error: "repr_exc n x = Some e \<Longrightarrow> format_error e"
proof (induction n arbitrary: x)
  case 0
  then show ?case
    by (simp add: format_error_def)
next
  case (Suc n)
  show ?case
  proof (cases x)
    case (PInt i)
    with Suc.prems show ?thesis
      by (simp add: format_error_def split: if_splits)
  next
    case (PList xs)
    with Suc.prems have "Some e \<in> set (map (repr_exc n) xs)"
      by (auto dest!: first_exc_Some)
    then obtain y where "repr_exc n y = Some e"
      by auto
    then show ?thesis
      by (rule Suc.IH)
  next
    case (PDict d)
    with Suc.prems
    have "Some e \<in> set (concat (map (\<lambda>kv. [repr_exc n (PStr (fst kv)),
                                              repr_exc n (snd kv)]) d))"
      by (auto dest!: first_exc_Some)
    then obtain y where "repr_exc n y = Some e"
      by auto
    then show ?thesis
      by (rule Suc.IH)
  qed (use Suc.prems in simp_all)
qed

lemma repr_exc_Suc: "repr_exc n x = None \<Longrightarrow> repr_exc (Suc n) x = None"
proof (induction n arbitrary: x)
  case 0
  then show ?case
    by simp
next
  case (Suc n)
  show ?case
  proof (cases x)
    case (PList xs)
    with Suc.prems have "\<forall>y\<in>set xs. repr_exc n y = None"
      by (simp add: first_exc_None)
    then have "\<forall>y\<in>set xs. repr_exc (Suc n) y = None"
      using Suc.IH by blast
    with PList show ?thesis
      by (simp add: first_exc_None)
  next
    case (PDict d)
    with Suc.prems
    have "\<forall>kv\<in>set d. repr_exc n (PStr (fst kv)) = None \<and> repr_exc n (snd kv) = None"
      by (simp add: first_exc_None)
    then have "\<forall>kv\<in>set d. repr_exc (Suc n) (snd kv) = None"
      using Suc.IH by blast
    with PDict show ?thesis
      by (simp add: first_exc_None)
  qed (use Suc.prems in simp_all)
qed

lemma repr_dict_None:
  "repr_exc (Suc (Suc n)) (PDict d) = None \<longleftrightarrow> (\<forall>kv\<in>set d. repr_exc (Suc n) (snd kv) = None)"
  by (simp add: first_exc_None)

lemma log_validated_error: "log_validated bi d = Inl e \<Longrightarrow> format_error e"
  by (auto simp: log_validated_def split: option.splits dest: repr_exc_error)

lemma set_setitem: "set (setitem d k x) \<subseteq> insert (k, x) (set d)"
  unfolding setitem_def by (induction d) auto

lemma set_delitem: "set (delitem d k) \<subseteq> set d"
  unfolding delitem_def by (induction d) auto

lemma setitem_vals:
  assumes "\<forall>kv\<in>set d. P (snd kv)" and "P x"
  shows "\<forall>kv\<in>set (setitem d k x). P (snd kv)"
  using assms set_setitem [of d k x] by fastforce

lemma delitem_vals:
  assumes "\<forall>kv\<in>set d. P (snd kv)"
  shows "\<forall>kv\<in>set (delitem d k). P (snd kv)"
  using assms set_delitem [of d k] by fastforce

lemma deepseek_messages_vals:
  assumes s: "deepseek_messages ps d = Inr d'"
    and d: "\<forall>kv\<in>set d. P (snd kv)"
    and ms: "\<And>ms. map_of ps ''messages'' = Some ms \<Longrightarrow> P ms"
    and p: "\<And>p. map_of ps ''prompt'' = Some p \<Longrightarrow> P (PList [user_message p])"
  shows "\<forall>kv\<in>set d'. P (snd kv)"
proof (cases "map_of ps ''messages''")
  case (Some m)
  with s have "d' = setitem d ''messages'' m"
    by (simp add: deepseek_messages_def has_key_def getitem_def)
  with d ms [OF Some] show ?thesis
    by (simp add: setitem_vals)
next
  case None
  show ?thesis
  proof (cases "map_of ps ''prompt''")
    case None
    with \<open>map_of ps ''messages'' = None\<close> s d show ?thesis
      by (simp add: deepseek_messages_def has_key_def)
  next
    case (Some q)
    let ?v = "setitem d ''messages'' (PList [user_message q])"
    have v: "\<forall>kv\<in>set ?v. P (snd kv)"
      using d p [OF Some] by (rule setitem_vals)
    from s Some \<open>map_of ps ''messages'' = None\<close>
    have "d' = ?v \<or> d' = delitem ?v ''prompt''"
      by (auto simp: deepseek_messages_def has_key_def getitem_def Let_def split: if_splits)
    with v delitem_vals [OF v, of "''prompt''"] show ?thesis
      by auto
  qed
qed

lemma clamped_digits:
  assumes "- (10 ^ max_str_digits) < (i::int)"
  shows "\<bar>py_min (<) i 32768\<bar> < 10 ^ max_str_digits"
proof -
  have "(32768::int) < 10 ^ max_str_digits"
    by (rule small_int_digits) simp
  with assms show ?thesis
    by (simp add: py_min_def abs_less_iff)
qed

lemma deepseek_max_tokens_vals:
  assumes s: "deepseek_max_tokens bi d = Inr d'"
    and d: "\<forall>kv\<in>set d. repr_exc (Suc n) (snd kv) = None"
    and i: "\<And>x i. map_of d ''max_tokens'' = Some x \<Longrightarrow> py_int bi x = Inr i
                \<Longrightarrow> - (10 ^ max_str_digits) < i"
  shows "\<forall>kv\<in>set d'. repr_exc (Suc n) (snd kv) = None"
proof (cases "has_key d ''max_tokens''")
  case True
  with s obtain x j where x: "map_of d ''max_tokens'' = Some x" "py_int bi x = Inr j"
    and d': "d' = setitem d ''max_tokens'' (PInt (py_min (<) j 32768))"
    by (auto simp: deepseek_max_tokens_def conv_int_Inr)
  have "repr_exc (Suc n) (PInt (py_min (<) j 32768)) = None"
    using clamped_digits [OF i [OF x]] by simp
  with d show ?thesis
    unfolding d' by (rule setitem_vals)
next
  case False
  with s have d': "d' = setitem d ''max_tokens'' (PInt 4096)"
    by (simp add: deepseek_max_tokens_def)
  have "\<bar>4096::int\<bar> < 10 ^ max_str_digits"
    using small_int_digits [of 4096] by simp
  then have "repr_exc (Suc n) (PInt 4096) = None"
    by simp
  with d show ?thesis
    unfolding d' by (rule setitem_vals)
qed

lemma deepseek_temperature_vals:
  assumes "deepseek_temperature bi model d = Inr d'"
    and d: "\<forall>kv\<in>set d. repr_exc (Suc n) (snd kv) = None"
  shows "\<forall>kv\<in>set d'. repr_exc (Suc n) (snd kv) = None"
proof -
  from assms(1) have "d' = d \<or> (\<exists>f. d' = setitem d ''temperature'' (PFloat f))"
    by (auto simp: deepseek_temperature_def conv_float_Inr split: if_splits)
  with d show ?thesis
    using setitem_vals [OF d, of "PFloat _" "''temperature''"] by auto
qed

lemma deepseek_top_p_vals:
  assumes "deepseek_top_p bi model d = Inr d'"
    and d: "\<forall>kv\<in>set d. repr_exc (Suc n) (snd kv) = None"
  shows "\<forall>kv\<in>set d'. repr_exc (Suc n) (snd kv) = None"
proof -
  from assms(1) have "d' = d \<or> (\<exists>f. d' = setitem d ''top_p'' (PFloat f))"
    by (auto simp: deepseek_top_p_def conv_float_Inr split: if_splits)
  with d show ?thesis
    using setitem_vals [OF d, of "PFloat _" "''top_p''"] by auto
qed

lemma stream_flag_vals:
  assumes "stream_flag d = Inr d'"
    and d: "\<forall>kv\<in>set d. repr_exc (Suc n) (snd kv) = None"
  shows "\<forall>kv\<in>set d'. repr_exc (Suc n) (snd kv) = None"
proof -
  from assms(1) have "\<exists>b. d' = setitem d ''stream'' (PBool b)"
    by (auto simp: stream_flag_def bind_exc_Inr split: if_splits)
  with d show ?thesis
    using setitem_vals [OF d, of "PBool _" "''stream''"] by auto
qed

lemma deepseek_steps:
  assumes c: "convertible DeepSeek bi model ps"
  shows "\<exists>v1 v2 v3 v4 v.
           deepseek_messages ps (setitem ps ''model'' (PStr model)) = Inr v1 \<and>
           deepseek_max_tokens bi v1 = Inr v2 \<and>
           deepseek_temperature bi model v2 = Inr v3 \<and>
           deepseek_top_p bi model v3 = Inr v4 \<and>
           stream_flag v4 = Inr v"
proof -
  obtain v1 where s1: "deepseek_messages ps (setitem ps ''model'' (PStr model)) = Inr v1"
    using deepseek_messages_ok by blast
  have "int_ok bi v1 ''max_tokens''"
    using c deepseek_messages_frame [OF s1, of "''max_tokens''"]
    by (simp add: int_ok_def map_of_setitem)
  then obtain v2 where s2: "deepseek_max_tokens bi v1 = Inr v2"
    using deepseek_max_tokens_ok by blast
  have "model \<noteq> ''deepseek-reasoner'' \<longrightarrow> float_ok bi v2 ''temperature''"
    using c deepseek_messages_frame [OF s1, of "''temperature''"]
      deepseek_max_tokens_frame [OF s2, of "''temperature''"]
    by (simp add: float_ok_def map_of_setitem)
  then obtain v3 where s3: "deepseek_temperature bi model v2 = Inr v3"
    using deepseek_temperature_ok by blast
  have "model \<noteq> ''deepseek-reasoner'' \<longrightarrow> float_ok bi v3 ''top_p''"
    using c deepseek_messages_frame [OF s1, of "''top_p''"]
      deepseek_max_tokens_frame [OF s2, of "''top_p''"]
      deepseek_temperature_frame [OF s3, of "''top_p''"]
    by (simp add: float_ok_def map_of_setitem)
  then obtain v4 where s4: "deepseek_top_p bi model v3 = Inr v4"
    using deepseek_top_p_ok by blast
  obtain v where s5: "stream_flag v4 = Inr v"
    using stream_flag_ok by blast
  from s1 s2 s3 s4 s5 show ?thesis
    by blast
qed

lemma deepseek_validate_log:
  assumes "model \<in> set (deepseek_supported_models cfg)"
    and "has_key ps ''prompt'' \<or> has_key ps ''messages''"
    and "deepseek_messages ps (setitem ps ''model'' (PStr model)) = Inr v1"
    and "deepseek_max_tokens bi v1 = Inr v2"
    and "deepseek_temperature bi model v2 = Inr v3"
    and "deepseek_top_p bi model v3 = Inr v4"
    and "stream_flag v4 = Inr v"
  shows "deepseek_validate_parameters bi cfg model ps = log_validated bi v"
  using assms by (auto simp: deepseek_validate_parameters_def)

lemma deepseek_steps_loggable:
  assumes l: "loggable bi ps"
    and s1: "deepseek_messages ps (setitem ps ''model'' (PStr model)) = Inr v1"
    and s2: "deepseek_max_tokens bi v1 = Inr v2"
    and s3: "deepseek_temperature bi model v2 = Inr v3"
    and s4: "deepseek_top_p bi model v3 = Inr v4"
    and s5: "stream_flag v4 = Inr v"
  shows "repr_exc (repr_depth bi) (PDict v) = None"
proof -
  from l obtain n where n: "repr_depth bi = Suc (Suc (Suc (Suc n)))"
    by (auto simp: loggable_def dest!: less_imp_Suc_add)
  from l n have ps: "\<forall>kv\<in>set ps. repr_exc (Suc n) (snd kv) = None"
    by (simp add: loggable_def list_all_iff)
  have up: "repr_exc (Suc (Suc (Suc n))) x = None" if "repr_exc (Suc n) x = None" for x
    using that by (simp add: repr_exc_Suc)
  from ps have ps3: "\<forall>kv\<in>set ps. repr_exc (Suc (Suc (Suc n))) (snd kv) = None"
    using up by blast
  have v0: "\<forall>kv\<in>set (setitem ps ''model'' (PStr model)).
              repr_exc (Suc (Suc (Suc n))) (snd kv) = None"
    using ps3 by (rule setitem_vals) simp
  have v1: "\<forall>kv\<in>set v1. repr_exc (Suc (Suc (Suc n))) (snd kv) = None"
  proof (rule deepseek_messages_vals [OF s1 v0])
    fix ms
    assume "map_of ps ''messages'' = Some ms"
    then have "(''messages'', ms) \<in> set ps"
      by (rule map_of_SomeD)
    with ps3 show "repr_exc (Suc (Suc (Suc n))) ms = None"
      by fastforce
  next
    fix p
    assume "map_of ps ''prompt'' = Some p"
    then have "(''prompt'', p) \<in> set ps"
      by (rule map_of_SomeD)
    with ps have "repr_exc (Suc n) p = None"
      by fastforce
    then show "repr_exc (Suc (Suc (Suc n))) (PList [user_message p]) = None"
      by (simp add: user_message_def)
  qed
  have v2: "\<forall>kv\<in>set v2. repr_exc (Suc (Suc (Suc n))) (snd kv) = None"
  proof (rule deepseek_max_tokens_vals [OF s2 v1])
    fix x i
    assume "map_of v1 ''max_tokens'' = Some x" and i: "py_int bi x = Inr i"
    then have "map_of ps ''max_tokens'' = Some x"
      using deepseek_messages_frame [OF s1, of "''max_tokens''"]
      by (simp add: map_of_setitem)
    with l i show "- (10 ^ max_str_digits) < i"
      by (simp add: loggable_def)
  qed
  have v3: "\<forall>kv\<in>set v3. repr_exc (Suc (Suc (Suc n))) (snd kv) = None"
    using s3 v2 by (rule deepseek_temperature_vals)
  have v4: "\<forall>kv\<in>set v4. repr_exc (Suc (Suc (Suc n))) (snd kv) = None"
    using s4 v3 by (rule deepseek_top_p_vals)
  have "\<forall>kv\<in>set v. repr_exc (Suc (Suc (Suc n))) (snd kv) = None"
    using s5 v4 by (rule stream_flag_vals)
  then show ?thesis
    unfolding n repr_dict_None .
qed

lemma deepseek_validate_succeeds:
  assumes c: "convertible DeepSeek bi model ps"
    and l: "loggable bi ps"
    and m: "model \<in> set (deepseek_supported_models cfg)"
    and i: "has_key ps ''prompt'' \<or> has_key ps ''messages''"
  shows "\<exists>v. deepseek_validate_parameters bi cfg model ps = Inr v"
proof -
  from deepseek_steps [OF c] obtain v1 v2 v3 v4 v where
    s: "deepseek_messages ps (setitem ps ''model'' (PStr model)) = Inr v1"
       "deepseek_max_tokens bi v1 = Inr v2"
       "deepseek_temperature bi model v2 = Inr v3"
       "deepseek_top_p bi model v3 = Inr v4"
       "stream_flag v4 = Inr v"
    by blast
  have "repr_exc (repr_depth bi) (PDict v) = None"
    using l s by (rule deepseek_steps_loggable)
  with m i s have "deepseek_validate_parameters bi cfg model ps = Inr v"
    unfolding deepseek_validate_Inr by blast
  then show ?thesis ..
qed

lemma deepseek_validate_error:
  assumes r: "deepseek_validate_parameters bi cfg model ps = Inl e"
    and m: "model \<in> set (deepseek_supported_models cfg)"
    and i: "has_key ps ''prompt'' \<or> has_key ps ''messages''"
  shows "if convertible DeepSeek bi model ps then format_error e else conversion_error e"
proof (cases "convertible DeepSeek bi model ps")
  case True
  from deepseek_steps [OF True] obtain v1 v2 v3 v4 v where
    s: "deepseek_messages ps (setitem ps ''model'' (PStr model)) = Inr v1"
       "deepseek_max_tokens bi v1 = Inr v2"
       "deepseek_temperature bi model v2 = Inr v3"
       "deepseek_top_p bi model v3 = Inr v4"
       "stream_flag v4 = Inr v"
    by blast
  from m i s have "deepseek_validate_parameters bi cfg model ps = log_validated bi v"
    by (rule deepseek_validate_log)
  with r have "format_error e"
    by (simp add: log_validated_error)
  with True show ?thesis
    by (simp del: convertible.simps)
next
  case False
  from r m i have "conversion_error e
      \<or> (\<exists>v1 v2 v3 v4 v.
           deepseek_messages ps (setitem ps ''model'' (PStr model)) = Inr v1 \<and>
           deepseek_max_tokens bi v1 = Inr v2 \<and>
           deepseek_temperature bi model v2 = Inr v3 \<and>
           deepseek_top_p bi model v3 = Inr v4 \<and>
           stream_flag v4 = Inr v)"
    by (auto simp: deepseek_validate_parameters_def bind_exc_Inl
          deepseek_messages_error stream_flag_error
        dest: deepseek_max_tokens_error deepseek_temperature_error deepseek_top_p_error)
  then show ?thesis
  proof
    assume "conversion_error e"
    with False show ?thesis
      by (simp del: convertible.simps)
  next
    assume "\<exists>v1 v2 v3 v4 v.
           deepseek_messages ps (setitem ps ''model'' (PStr model)) = Inr v1 \<and>
           deepseek_max_tokens bi v1 = Inr v2 \<and>
           deepseek_temperature bi model v2 = Inr v3 \<and>
           deepseek_top_p bi model v3 = Inr v4 \<and>
           stream_flag v4 = Inr v"
    then obtain v1 v2 v3 v4 v where
      s: "deepseek_messages ps (setitem ps ''model'' (PStr model)) = Inr v1"
         "deepseek_max_tokens bi v1 = Inr v2"
         "deepseek_temperature bi model v2 = Inr v3"
         "deepseek_top_p bi model v3 = Inr v4"
         "stream_flag v4 = Inr v"
      by blast
    have "convertible DeepSeek bi model ps"
      using s by (rule deepseek_steps_convertible)
    with False show ?thesis
      by blast
  qed
qed

subsection \<open>Both providers\<close>

lemma validate_succeeds:
  assumes "convertible prov bi model ps"
    and "prov = DeepSeek \<longrightarrow> loggable bi ps"
    and "model \<in> set (supported_models prov cfg)"
    and "has_key ps ''prompt'' \<or> has_key ps ''messages''"
  shows "\<exists>v. validate_parameters prov bi cfg model ps = Inr v"
  using assms aliyun_validate_succeeds [of bi model ps cfg]
    deepseek_validate_succeeds [of bi model ps cfg]
  by (cases prov) simp_all

lemma validate_convertible:
  assumes "validate_parameters prov bi cfg model ps = Inr v"
  shows "convertible prov bi model ps"
  using assms aliyun_validate_convertible [of bi cfg model ps v]
    deepseek_validate_convertible [of bi cfg model ps v]
  by (cases prov) simp_all

lemma validate_error:
  assumes r: "validate_parameters prov bi cfg model ps = Inl e"
    and m: "model \<in> set (supported_models prov cfg)"
    and i: "has_key ps ''prompt'' \<or> has_key ps ''messages''"
  shows "if convertible prov bi model ps then prov = DeepSeek \<and> format_error e
         else conversion_error e"
proof (cases prov)
  case Aliyun
  with r m have a: "aliyun_validate_parameters bi cfg model ps = Inl e"
    and m': "model \<in> set (aliyun_supported_models cfg)"
    by simp_all
  have "\<not> convertible Aliyun bi model ps"
    using aliyun_validate_succeeds [OF _ m' i, of bi] a by auto
  with Aliyun aliyun_validate_error [OF a m' i] show ?thesis
    by (simp del: convertible.simps)
next
  case DeepSeek
  with r m have a: "deepseek_validate_parameters bi cfg model ps = Inl e"
    and m': "model \<in> set (deepseek_supported_models cfg)"
    by simp_all
  from DeepSeek deepseek_validate_error [OF a m' i] show ?thesis
    by (simp del: convertible.simps)
qed

lemma validate_unsupported:
  assumes "model \<notin> set (supported_models prov cfg)"
  shows "validate_parameters prov bi cfg model ps
           = Inl (ValueError (''Model '' @ [CHR 0x27] @ model @ [CHR 0x27]
                              @ '' not supported. Supported models: ''
                              @ join '', '' (supported_models prov cfg)))"
  using assms
  by (cases prov)
     (simp_all add: aliyun_validate_parameters_def deepseek_validate_parameters_def
        unsupported_msg_def sq_def)

text \<open>
  C8, as the code has it. A model outside the provider's supported list is
  rejected with the unsupported-model error, whose message holds the model name
  and the whole supported list, joined with commas. For a supported model and
  parameters that hold \<^verbatim>\<open>prompt\<close> or \<^verbatim>\<open>messages\<close>:

  \<^item> when validation succeeds, every numeric field that the validator converts
    was absent or convertible, \<^verbatim>\<open>messages\<close> of the output is the caller's
    \<^verbatim>\<open>messages\<close> as it was given, or else the single user message made of the
    caller's \<^verbatim>\<open>prompt\<close>, and, for DeepSeek, the output is a dictionary that
    could be formatted for the log;

  \<^item> validation succeeds when every converted field is absent or convertible and,
    for DeepSeek, the parameters can be written to the log;

  \<^item> when validation fails, the exception is that of \<^verbatim>\<open>int()\<close> or
    \<^verbatim>\<open>float()\<close> on a field that cannot be converted, or else, for DeepSeek only,
    that of formatting the validated parameters for the log.
\<close>

theorem validation_outcome:
  "(model \<notin> set (supported_models prov cfg) \<longrightarrow>
      validate_parameters prov bi cfg model parameters
        = Inl (ValueError (''Model '' @ [CHR 0x27] @ model @ [CHR 0x27]
                           @ '' not supported. Supported models: ''
                           @ join '', '' (supported_models prov cfg))))
   \<and> (model \<in> set (supported_models prov cfg)
        \<and> (has_key parameters ''prompt'' \<or> has_key parameters ''messages'') \<longrightarrow>
      (\<forall>validated. validate_parameters prov bi cfg model parameters = Inr validated \<longrightarrow>
         convertible prov bi model parameters
         \<and> map_of validated ''messages'' =
           (case map_of parameters ''messages'' of
              Some ms \<Rightarrow> Some ms
            | None \<Rightarrow> map_option (\<lambda>p. PList [PDict [(''role'', PStr ''user''),
                                                     (''content'', p)]])
                        (map_of parameters ''prompt''))
         \<and> (prov = DeepSeek \<longrightarrow> repr_exc (repr_depth bi) (PDict validated) = None))
      \<and> (convertible prov bi model parameters
           \<and> (prov = DeepSeek \<longrightarrow> loggable bi parameters) \<longrightarrow>
         (\<exists>validated. validate_parameters prov bi cfg model parameters = Inr validated))
      \<and> (\<forall>e. validate_parameters prov bi cfg model parameters = Inl e \<longrightarrow>
           (if convertible prov bi model parameters
            then prov = DeepSeek \<and> format_error e
            else conversion_error e)))"
proof (intro conjI impI allI)
  assume "model \<notin> set (supported_models prov cfg)"
  then show "validate_parameters prov bi cfg model parameters
        = Inl (ValueError (''Model '' @ [CHR 0x27] @ model @ [CHR 0x27]
                           @ '' not supported. Supported models: ''
                           @ join '', '' (supported_models prov cfg)))"
    by (rule validate_unsupported)
next
  fix validated
  assume "validate_parameters prov bi cfg model parameters = Inr validated"
  then show "convertible prov bi model parameters"
    by (rule validate_convertible)
next
  fix validated
  assume "validate_parameters prov bi cfg model parameters = Inr validated"
  then show "map_of validated ''messages'' =
           (case map_of parameters ''messages'' of
              Some ms \<Rightarrow> Some ms
            | None \<Rightarrow> map_option (\<lambda>p. PList [PDict [(''role'', PStr ''user''),
                                                     (''content'', p)]])
                        (map_of parameters ''prompt''))"
    by (rule validated_messages)
next
  fix validated
  assume "validate_parameters prov bi cfg model parameters = Inr validated"
    and "prov = DeepSeek"
  then show "repr_exc (repr_depth bi) (PDict validated) = None"
    by (simp add: deepseek_validate_Inr)
next
  assume "model \<in> set (supported_models prov cfg)
        \<and> (has_key parameters ''prompt'' \<or> has_key parameters ''messages'')"
    and "convertible prov bi model parameters
           \<and> (prov = DeepSeek \<longrightarrow> loggable bi parameters)"
  then show "\<exists>validated. validate_parameters prov bi cfg model parameters = Inr validated"
    using validate_succeeds by blast
next
  fix e
  assume "model \<in> set (supported_models prov cfg)
        \<and> (has_key parameters ''prompt'' \<or> has_key parameters ''messages'')"
    and "validate_parameters prov bi cfg model parameters = Inl e"
  then show "if convertible prov bi model parameters
            then prov = DeepSeek \<and> format_error e
            else conversion_error e"
    using validate_error by blast
qed

theorem validation_outcome_witness:
  "validate_parameters DeepSeek no_strings [] ''qwen-turbo'' [(''prompt'', PStr ''hi'')]
     = Inl (ValueError (''Model '' @ [CHR 0x27] @ ''qwen-turbo'' @ [CHR 0x27]
                        @ '' not supported. Supported models: deepseek-chat, deepseek-reasoner''))
   \<and> (\<exists>validated. validate_parameters Aliyun no_strings [] ''qwen-turbo''
                      [(''prompt'', PStr ''hi''), (''max_tokens'', PFloat (Finite (5 / 2)))]
                    = Inr validated
                 \<and> map_of validated ''messages'' = Some (PList [PDict [(''role'', PStr ''user''), (''content'', PStr ''hi'')]]))
   \<and> (\<exists>validated. validate_parameters DeepSeek no_strings [] ''deepseek-chat''
                      [(''messages'', PList []), (''prompt'', PStr ''hi'')]
                    = Inr validated
                 \<and> map_of validated ''messages'' = Some (PList []))
   \<and> validate_parameters Aliyun no_strings [] ''qwen-turbo''
        [(''prompt'', PStr ''hi''), (''max_tokens'', PStr ''many'')]
      = Inl ConversionValueError
   \<and> conversion_error ConversionValueError
   \<and> validate_parameters DeepSeek no_strings [] ''deepseek-chat''
        [(''prompt'', PStr ''hi''), (''budget'', PInt (10 ^ max_str_digits))]
      = Inl (ValueError digits_msg)
   \<and> format_error (ValueError digits_msg)"
proof -
  have l: "loggable no_strings [(''messages'', PList []), (''prompt'', PStr ''hi'')]"
    by (simp add: loggable_def no_strings_def repr_exc_unfold)
  have r: "validate_parameters DeepSeek no_strings [] ''deepseek-chat''
        [(''prompt'', PStr ''hi''), (''budget'', PInt (10 ^ max_str_digits))]
      = Inl (ValueError digits_msg)"
    by (simp add: validate_defs)
  have c: "validate_parameters Aliyun no_strings [] ''qwen-turbo''
        [(''prompt'', PStr ''hi''), (''max_tokens'', PStr ''many'')]
      = Inl ConversionValueError"
    by (simp add: validate_defs)
  from validation_outcome [of "''qwen-turbo''" DeepSeek "[]" no_strings
          "[(''prompt'', PStr ''hi'')]"]
    validation_outcome [of "''qwen-turbo''" Aliyun "[]" no_strings
          "[(''prompt'', PStr ''hi''), (''max_tokens'', PFloat (Finite (5 / 2)))]"]
    validation_outcome [of "''deepseek-chat''" DeepSeek "[]" no_strings
          "[(''messages'', PList []), (''prompt'', PStr ''hi'')]"]
    validation_outcome [of "''qwen-turbo''" Aliyun "[]" no_strings
          "[(''prompt'', PStr ''hi''), (''max_tokens'', PStr ''many'')]"]
    validation_outcome [of "''deepseek-chat''" DeepSeek "[]" no_strings
          "[(''prompt'', PStr ''hi''), (''budget'', PInt (10 ^ max_str_digits))]"]
    l r c
  show ?thesis
    by (auto simp: aliyun_supported_models_def deepseek_supported_models_def has_key_def
          int_ok_def float_ok_def no_strings_def)
qed

text \<open>
  The claim as stated fails: a supported model and a \<^verbatim>\<open>prompt\<close> do not make
  validation succeed when \<^verbatim>\<open>max_tokens\<close> is \<^verbatim>\<open>None\<close>.
\<close>

theorem validation_succeeds_counterexample:
  "''qwen-turbo'' \<in> set (supported_models Aliyun [])
   \<and> has_key [(''prompt'', PStr ''hi''), (''max_tokens'', PNone)] ''prompt''
   \<and> validate_parameters Aliyun no_strings [] ''qwen-turbo''
        [(''prompt'', PStr ''hi''), (''max_tokens'', PNone)] = Inl TypeError"
  by (simp add: validate_defs bind_exc_def)

section \<open>Validation: the caller's dictionary\<close>

lemma then_st_in_place:
  "then_st (in_place v stmt h) k =
     (case stmt (cells h v) of
        Inl e \<Rightarrow> (Inl e, h)
      | Inr d \<Rightarrow> k (h\<lparr>cells := (cells h)(v := d)\<rparr>))"
  by (simp add: then_st_def in_place_def split: sum.splits)

text \<open>
  On the heap the validators compute what they compute on values: they raise the
  same exception, or return a new object that holds the validated dictionary.
\<close>

lemma aliyun_st_refines:
  assumes "p < next_addr h"
  shows "case aliyun_validate_parameters bi cfg model (cells h p) of
           Inl e \<Rightarrow> fst (aliyun_validate_parameters_st bi cfg model p h) = Inl e
         | Inr d \<Rightarrow>
             fst (aliyun_validate_parameters_st bi cfg model p h) = Inr (next_addr h)
             \<and> cells (snd (aliyun_validate_parameters_st bi cfg model p h)) (next_addr h) = d"
  using assms
  by (simp add: aliyun_validate_parameters_st_def aliyun_validate_parameters_def
        dict_copy_def then_st_in_place bind_exc_def split: sum.splits)

lemma deepseek_st_refines:
  assumes "p < next_addr h"
  shows "case deepseek_validate_parameters bi cfg model (cells h p) of
           Inl e \<Rightarrow> fst (deepseek_validate_parameters_st bi cfg model p h) = Inl e
         | Inr d \<Rightarrow>
             fst (deepseek_validate_parameters_st bi cfg model p h) = Inr (next_addr h)
             \<and> cells (snd (deepseek_validate_parameters_st bi cfg model p h)) (next_addr h) = d"
  using assms
  by (simp add: deepseek_validate_parameters_st_def deepseek_validate_parameters_def
        dict_copy_def then_st_in_place bind_exc_def log_validated_def
        split: sum.splits option.splits)

text \<open>
  A statement on the object \<open>v\<close> leaves every other object as it was, and so
  does the rest of the function when it has this property.
\<close>

lemma in_place_then_frame:
  assumes "a \<noteq> v" and "cells h a = d"
    and "\<And>h1. cells h1 a = d \<Longrightarrow>
           cells (snd (k h1)) a = d \<and> (\<forall>r. fst (k h1) = Inr r \<longrightarrow> r = v)"
  shows "cells (snd (then_st (in_place v stmt h) k)) a = d
       \<and> (\<forall>r. fst (then_st (in_place v stmt h) k) = Inr r \<longrightarrow> r = v)"
proof (cases "stmt (cells h v)")
  case (Inl e)
  with assms(2) show ?thesis
    by (simp add: in_place_def then_st_def)
next
  case (Inr d')
  have "cells (h\<lparr>cells := (cells h)(v := d')\<rparr>) a = d"
    using assms(1,2) by simp
  from assms(3) [OF this] Inr show ?thesis
    by (simp add: in_place_def then_st_def)
qed

lemma aliyun_st_frame:
  assumes "a < next_addr h"
  shows "cells (snd (aliyun_validate_parameters_st bi cfg model p h)) a = cells h a
       \<and> (\<forall>r. fst (aliyun_validate_parameters_st bi cfg model p h) = Inr r
              \<longrightarrow> r = next_addr h)"
proof -
  have ne: "a \<noteq> next_addr h"
    using assms by simp
  show ?thesis
    unfolding aliyun_validate_parameters_st_def dict_copy_def
    using ne by (simp, intro conjI impI in_place_then_frame) simp_all
qed

lemma deepseek_st_frame:
  assumes "a < next_addr h"
  shows "cells (snd (deepseek_validate_parameters_st bi cfg model p h)) a = cells h a
       \<and> (\<forall>r. fst (deepseek_validate_parameters_st bi cfg model p h) = Inr r
              \<longrightarrow> r = next_addr h)"
proof -
  have ne: "a \<noteq> next_addr h"
    using assms by simp
  show ?thesis
    unfolding deepseek_validate_parameters_st_def dict_copy_def
    using ne by (simp, intro conjI impI in_place_then_frame) simp_all
qed

text \<open>
  C5. For every provider, every model and every parameters dictionary that the
  caller holds (an allocated object of the heap), \<^verbatim>\<open>validate_parameters\<close>
  leaves the caller's dictionary as it was, with the same keys and the same values
  under them, whether the call returns or raises; and when it returns, the
  dictionary it returns is a new object, not the caller's. In the example the
  DeepSeek validator is called on \<^verbatim>\<open>{"prompt": "hi"}\<close>: the returned object has
  lost \<^verbatim>\<open>prompt\<close>, the caller's still has it.
\<close>

theorem validation_leaves_input_unchanged:
  assumes "parameters < next_addr h"
  shows "cells (snd (validate_parameters_st prov bi cfg model parameters h)) parameters
           = cells h parameters
       \<and> (\<forall>validated. fst (validate_parameters_st prov bi cfg model parameters h)
                          = Inr validated \<longrightarrow>
            validated = next_addr h \<and> validated \<noteq> parameters)"
  using assms aliyun_st_frame [of parameters h bi cfg model parameters]
    deepseek_st_frame [of parameters h bi cfg model parameters]
  by (cases prov) auto

theorem validation_leaves_input_unchanged_witness:
  "(0::nat) < next_addr \<lparr>cells = (\<lambda>a. [(''prompt'', PStr ''hi'')]), next_addr = 1\<rparr>
   \<and> fst (validate_parameters_st DeepSeek no_strings [] ''deepseek-chat'' 0
              \<lparr>cells = (\<lambda>a. [(''prompt'', PStr ''hi'')]), next_addr = 1\<rparr>) = Inr 1
   \<and> cells (snd (validate_parameters_st DeepSeek no_strings [] ''deepseek-chat'' 0
              \<lparr>cells = (\<lambda>a. [(''prompt'', PStr ''hi'')]), next_addr = 1\<rparr>)) 0 = [(''prompt'', PStr ''hi'')]
   \<and> cells (snd (validate_parameters_st DeepSeek no_strings [] ''deepseek-chat'' 0
              \<lparr>cells = (\<lambda>a. [(''prompt'', PStr ''hi'')]), next_addr = 1\<rparr>)) 1
       = [(''model'', PStr ''deepseek-chat''),
            (''messages'', PList [PDict [(''role'', PStr ''user''), (''content'', PStr ''hi'')]]),
            (''max_tokens'', PInt 4096), (''temperature'', PFloat (Finite (7 / 10))),
            (''top_p'', PFloat (Finite (9 / 10))), (''stream'', PBool False)]"
proof -
  have a: "(0::nat) < next_addr \<lparr>cells = (\<lambda>a. [(''prompt'', PStr ''hi'')]), next_addr = 1\<rparr>"
    by simp
  have b: "validate_parameters_st DeepSeek no_strings [] ''deepseek-chat'' 0
              \<lparr>cells = (\<lambda>a. [(''prompt'', PStr ''hi'')]), next_addr = 1\<rparr>
      = (Inr 1,
         \<lparr>cells = (\<lambda>a. [(''prompt'', PStr ''hi'')])(1 := [(''model'', PStr ''deepseek-chat''),
            (''messages'', PList [PDict [(''role'', PStr ''user''), (''content'', PStr ''hi'')]]),
            (''max_tokens'', PInt 4096), (''temperature'', PFloat (Finite (7 / 10))),
            (''top_p'', PFloat (Finite (9 / 10))), (''stream'', PBool False)]),
          next_addr = 2\<rparr>)"
    by (simp add: deepseek_validate_parameters_st_def dict_copy_def in_place_def then_st_def
        validate_defs)
  from validation_leaves_input_unchanged [OF a, of DeepSeek no_strings "[]" "''deepseek-chat''"] a b
  show ?thesis
    by simp
qed

section \<open>Response normalization: the end-to-end example\<close>

lemmas format_defs =
  format_response_def aliyun_choices_def aliyun_usage_def format_choice_def
  get_or_def setitem_def getitem_def has_key_def Let_def

lemma aliyun_validate_prompt_only:
  assumes "aliyun_validate_parameters bi cfg model [(''prompt'', p)] = Inr validated"
  shows "validated =
           [(''prompt'', p), (''model'', PStr model),
            (''messages'', PList [PDict [(''role'', PStr ''user''), (''content'', p)]]),
            (''max_tokens'', PInt 2048), (''temperature'', PFloat (Finite (7 / 10))),
            (''top_p'', PFloat (Finite (9 / 10))), (''stream'', PBool False),
            (''enable_thinking'', PBool False)]"
  using assms
  by (simp add: aliyun_validate_parameters_def aliyun_messages_def aliyun_max_tokens_def
        aliyun_temperature_def aliyun_top_p_def aliyun_top_k_def aliyun_seed_def
        aliyun_enable_thinking_def stream_flag_def getitem_def setitem_def has_key_def
        user_message_def split: if_splits)

text \<open>
  C4. For the Aliyun provider, a request validated from \<^verbatim>\<open>{"prompt": "hello"}\<close>
  and the upstream payload
  \<^verbatim>\<open>{"output": {"text": "hi there"}, "usage": {"input_tokens": 2, "output_tokens": 3}}\<close>
  are normalized to a result with exactly one choice, at index 0, with role
  \<^verbatim>\<open>assistant\<close>, the text as content and finish reason \<^verbatim>\<open>stop\<close>, and with
  usage \<^verbatim>\<open>{prompt_tokens: 2, completion_tokens: 3, total_tokens: 0}\<close>: the total
  that the upstream left out is 0, not the sum. The payload has no
  \<^verbatim>\<open>request_id\<close>, so the id is the generated one.
\<close>

theorem aliyun_end_to_end:
  assumes "aliyun_validate_parameters bi cfg model [(''prompt'', PStr ''hello'')] = Inr validated"
  shows "format_response uuid now
           [(''output'', PDict [(''text'', PStr ''hi there'')]),
            (''usage'', PDict [(''input_tokens'', PInt 2), (''output_tokens'', PInt 3)])]
           validated
         = Inr [(''id'', PStr uuid), (''model'', PStr model), (''created'', PStr now),
                (''choices'',
                 PList [PDict [(''index'', PInt 0),
                               (''message'', PDict [(''role'', PStr ''assistant''),
                                                    (''content'', PStr ''hi there'')]),
                               (''finish_reason'', PStr ''stop'')]]),
                (''usage'', PDict [(''prompt_tokens'', PInt 2),
                                   (''completion_tokens'', PInt 3),
                                   (''total_tokens'', PInt 0)])]"
  unfolding aliyun_validate_prompt_only [OF assms]
  by (simp add: format_defs)

theorem aliyun_end_to_end_witness:
  "aliyun_validate_parameters no_strings [] ''qwen-turbo'' [(''prompt'', PStr ''hello'')]
     = Inr [(''prompt'', PStr ''hello''), (''model'', PStr ''qwen-turbo''),
            (''messages'', PList [PDict [(''role'', PStr ''user''), (''content'', PStr ''hello'')]]),
            (''max_tokens'', PInt 2048), (''temperature'', PFloat (Finite (7 / 10))),
            (''top_p'', PFloat (Finite (9 / 10))), (''stream'', PBool False),
            (''enable_thinking'', PBool False)]
   \<and> format_response ''0b5c'' ''2025-01-01 00:00:00''
         [(''output'', PDict [(''text'', PStr ''hi there'')]),
          (''usage'', PDict [(''input_tokens'', PInt 2), (''output_tokens'', PInt 3)])]
         [(''prompt'', PStr ''hello''), (''model'', PStr ''qwen-turbo''),
          (''messages'', PList [PDict [(''role'', PStr ''user''), (''content'', PStr ''hello'')]]),
          (''max_tokens'', PInt 2048), (''temperature'', PFloat (Finite (7 / 10))),
          (''top_p'', PFloat (Finite (9 / 10))), (''stream'', PBool False),
          (''enable_thinking'', PBool False)]
       = Inr [(''id'', PStr ''0b5c''), (''model'', PStr ''qwen-turbo''),
              (''created'', PStr ''2025-01-01 00:00:00''),
              (''choices'',
               PList [PDict [(''index'', PInt 0),
                             (''message'', PDict [(''role'', PStr ''assistant''),
                                                  (''content'', PStr ''hi there'')]),
                             (''finish_reason'', PStr ''stop'')]]),
              (''usage'', PDict [(''prompt_tokens'', PInt 2),
                                 (''completion_tokens'', PInt 3),
                                 (''total_tokens'', PInt 0)])]"
proof -
  have a: "aliyun_validate_parameters no_strings [] ''qwen-turbo'' [(''prompt'', PStr ''hello'')]
     = Inr [(''prompt'', PStr ''hello''), (''model'', PStr ''qwen-turbo''),
            (''messages'', PList [PDict [(''role'', PStr ''user''), (''content'', PStr ''hello'')]]),
            (''max_tokens'', PInt 2048), (''temperature'', PFloat (Finite (7 / 10))),
            (''top_p'', PFloat (Finite (9 / 10))), (''stream'', PBool False),
            (''enable_thinking'', PBool False)]"
    by (simp add: validate_defs)
  from aliyun_end_to_end [OF a, of "''0b5c''" "''2025-01-01 00:00:00''"] a
  show ?thesis
    by simp
qed

section \<open>Response normalization: usage\<close>

text \<open>
  C1, as the code has it. When the upstream payload has no \<^verbatim>\<open>usage\<close>, the result
  of the Aliyun provider has the empty dictionary as \<^verbatim>\<open>usage\<close>, and the result
  of the DeepSeek provider has no \<^verbatim>\<open>usage\<close> key. Zeros are filled in for single
  fields only: by the Aliyun provider, for each of the three counts that a
  non-empty upstream \<^verbatim>\<open>usage\<close> leaves out. The DeepSeek provider copies the three
  counts of a usage object that is there.
\<close>

theorem usage_absent_is_not_zero_filled:
  "(\<not> has_key api_response ''usage'' \<longrightarrow>
      (\<forall>r. format_response uuid now api_response original_params = Inr r \<longrightarrow>
         map_of r ''usage'' = Some (PDict [])))
   \<and> (\<forall>u. map_of api_response ''usage'' = Some (PDict u) \<and> u \<noteq> [] \<longrightarrow>
      (\<forall>r. format_response uuid now api_response original_params = Inr r \<longrightarrow>
         map_of r ''usage'' =
           Some (PDict [(''prompt_tokens'',
                         case map_of u ''input_tokens'' of Some x \<Rightarrow> x | None \<Rightarrow> PInt 0),
                        (''completion_tokens'',
                         case map_of u ''output_tokens'' of Some x \<Rightarrow> x | None \<Rightarrow> PInt 0),
                        (''total_tokens'',
                         case map_of u ''total_tokens'' of Some x \<Rightarrow> x | None \<Rightarrow> PInt 0)])))
   \<and> (resp_usage response = None \<longrightarrow>
        map_of (deepseek_result model now response) ''usage'' = None)
   \<and> (\<forall>u. resp_usage response = Some u \<longrightarrow>
        map_of (deepseek_result model now response) ''usage'' =
          Some (PDict [(''prompt_tokens'', prompt_tokens u),
                       (''completion_tokens'', completion_tokens u),
                       (''total_tokens'', total_tokens u)]))"
  by (auto simp: format_response_def aliyun_usage_def get_or_def setitem_def has_key_def
        Let_def bind_exc_Inr deepseek_result_def split: option.splits)

theorem usage_absent_is_not_zero_filled_witness:
  "format_response ''0b5c'' ''2025-01-01 00:00:00''
     [(''request_id'', PStr ''r-1''), (''output'', PDict [(''text'', PStr ''hi there'')])]
     [(''model'', PStr ''qwen-turbo'')]
   = Inr [(''id'', PStr ''r-1''), (''model'', PStr ''qwen-turbo''),
          (''created'', PStr ''2025-01-01 00:00:00''),
          (''choices'',
           PList [PDict [(''index'', PInt 0),
                         (''message'', PDict [(''role'', PStr ''assistant''),
                                              (''content'', PStr ''hi there'')]),
                         (''finish_reason'', PStr ''stop'')]]),
          (''usage'', PDict [])]
   \<and> format_response ''0b5c'' ''2025-01-01 00:00:00''
     [(''output'', PDict [(''text'', PStr ''hi there'')]),
      (''usage'', PDict [(''input_tokens'', PInt 2)])]
     [(''model'', PStr ''qwen-turbo'')]
   = Inr [(''id'', PStr ''0b5c''), (''model'', PStr ''qwen-turbo''),
          (''created'', PStr ''2025-01-01 00:00:00''),
          (''choices'',
           PList [PDict [(''index'', PInt 0),
                         (''message'', PDict [(''role'', PStr ''assistant''),
                                              (''content'', PStr ''hi there'')]),
                         (''finish_reason'', PStr ''stop'')]]),
          (''usage'', PDict [(''prompt_tokens'', PInt 2), (''completion_tokens'', PInt 0),
                             (''total_tokens'', PInt 0)])]
   \<and> map_of (deepseek_result ''deepseek-chat'' ''2025-01-01 00:00:00''
        \<lparr>resp_id = PStr ''c-1'', resp_object = PStr ''chat.completion'',
         resp_model = PStr ''deepseek-chat'', resp_choices = [], resp_usage = None\<rparr>)
        ''usage'' = None
   \<and> map_of (deepseek_result ''deepseek-chat'' ''2025-01-01 00:00:00''
        \<lparr>resp_id = PStr ''c-1'', resp_object = PStr ''chat.completion'',
         resp_model = PStr ''deepseek-chat'', resp_choices = [],
         resp_usage = Some \<lparr>prompt_tokens = PInt 2, completion_tokens = PInt 3,
                             total_tokens = PInt 5\<rparr>\<rparr>)
        ''usage'' = Some (PDict [(''prompt_tokens'', PInt 2), (''completion_tokens'', PInt 3),
                                 (''total_tokens'', PInt 5)])"
proof -
  have a: "format_response ''0b5c'' ''2025-01-01 00:00:00''
     [(''request_id'', PStr ''r-1''), (''output'', PDict [(''text'', PStr ''hi there'')])]
     [(''model'', PStr ''qwen-turbo'')]
   = Inr [(''id'', PStr ''r-1''), (''model'', PStr ''qwen-turbo''),
          (''created'', PStr ''2025-01-01 00:00:00''),
          (''choices'',
           PList [PDict [(''index'', PInt 0),
                         (''message'', PDict [(''role'', PStr ''assistant''),
                                              (''content'', PStr ''hi there'')]),
                         (''finish_reason'', PStr ''stop'')]]),
          (''usage'', PDict [])]"
    by (simp add: format_defs)
  have b: "format_response ''0b5c'' ''2025-01-01 00:00:00''
     [(''output'', PDict [(''text'', PStr ''hi there'')]),
      (''usage'', PDict [(''input_tokens'', PInt 2)])]
     [(''model'', PStr ''qwen-turbo'')]
   = Inr [(''id'', PStr ''0b5c''), (''model'', PStr ''qwen-turbo''),
          (''created'', PStr ''2025-01-01 00:00:00''),
          (''choices'',
           PList [PDict [(''index'', PInt 0),
                         (''message'', PDict [(''role'', PStr ''assistant''),
                                              (''content'', PStr ''hi there'')]),
                         (''finish_reason'', PStr ''stop'')]]),
          (''usage'', PDict [(''prompt_tokens'', PInt 2), (''completion_tokens'', PInt 0),
                             (''total_tokens'', PInt 0)])]"
    by (simp add: format_defs)
  from usage_absent_is_not_zero_filled
         [of "[(''request_id'', PStr ''r-1''), (''output'', PDict [(''text'', PStr ''hi there'')])]"
             "''0b5c''" "''2025-01-01 00:00:00''" "[(''model'', PStr ''qwen-turbo'')]"
             "\<lparr>resp_id = PStr ''c-1'', resp_object = PStr ''chat.completion'',
         resp_model = PStr ''deepseek-chat'', resp_choices = [], resp_usage = None\<rparr>"
             "''deepseek-chat''"]
       usage_absent_is_not_zero_filled
         [of "[(''output'', PDict [(''text'', PStr ''hi there'')]),
      (''usage'', PDict [(''input_tokens'', PInt 2)])]"
             "''0b5c''" "''2025-01-01 00:00:00''" "[(''model'', PStr ''qwen-turbo'')]"
             "\<lparr>resp_id = PStr ''c-1'', resp_object = PStr ''chat.completion'',
         resp_model = PStr ''deepseek-chat'', resp_choices = [],
         resp_usage = Some \<lparr>prompt_tokens = PInt 2, completion_tokens = PInt 3,
                             total_tokens = PInt 5\<rparr>\<rparr>"
             "''deepseek-chat''"] a b
  show ?thesis
    by (simp add: has_key_def)
qed

text \<open>
  The claim as stated fails for both providers: without \<^verbatim>\<open>usage\<close> upstream, the
  Aliyun result has \<^verbatim>\<open>usage = {}\<close>, which has no \<^verbatim>\<open>total_tokens\<close>, and the
  DeepSeek result has no \<^verbatim>\<open>usage\<close> at all.
\<close>

theorem usage_zero_filled_counterexample:
  "format_response ''0b5c'' ''2025-01-01 00:00:00''
     [(''output'', PDict [(''text'', PStr ''hi there'')])] [(''model'', PStr ''qwen-turbo'')]
   = Inr [(''id'', PStr ''0b5c''), (''model'', PStr ''qwen-turbo''),
          (''created'', PStr ''2025-01-01 00:00:00''),
          (''choices'',
           PList [PDict [(''index'', PInt 0),
                         (''message'', PDict [(''role'', PStr ''assistant''),
                                              (''content'', PStr ''hi there'')]),
                         (''finish_reason'', PStr ''stop'')]]),
          (''usage'', PDict [])]
   \<and> deepseek_result ''deepseek-chat'' ''2025-01-01 00:00:00''
        \<lparr>resp_id = PStr ''c-1'', resp_object = PStr ''chat.completion'',
         resp_model = PStr ''deepseek-chat'', resp_choices = [], resp_usage = None\<rparr>
     = [(''id'', PStr ''c-1''), (''object'', PStr ''chat.completion''),
        (''created'', PStr ''2025-01-01 00:00:00''), (''model'', PStr ''deepseek-chat''),
        (''choices'', PList [])]"
  by (simp add: format_defs deepseek_result_def)

section \<open>Response normalization: an output without text and choices\<close>

lemma aliyun_validated_model:
  assumes "aliyun_validate_parameters bi cfg model ps = Inr v"
  shows "map_of v ''model'' = Some (PStr model)"
proof -
  from assms obtain v1 v2 v3 v4 v5 v6 v7 where
    s: "aliyun_messages ps (setitem ps ''model'' (PStr model)) = Inr v1"
       "aliyun_max_tokens bi v1 = Inr v2"
       "aliyun_temperature bi v2 = Inr v3"
       "aliyun_top_p bi v3 = Inr v4"
       "aliyun_top_k bi v4 = Inr v5"
       "stream_flag v5 = Inr v6"
       "aliyun_seed bi v6 = Inr v7"
       "aliyun_enable_thinking v7 = Inr v"
    unfolding aliyun_validate_Inr by blast
  show ?thesis
    using aliyun_messages_frame [OF s(1), of "''model''"]
      aliyun_max_tokens_frame [OF s(2), of "''model''"]
      aliyun_temperature_frame [OF s(3), of "''model''"]
      aliyun_top_p_frame [OF s(4), of "''model''"]
      aliyun_top_k_frame [OF s(5), of "''model''"]
      stream_flag_frame [OF s(6), of "''model''"]
      aliyun_seed_frame [OF s(7), of "''model''"]
      aliyun_enable_thinking_frame [OF s(8), of "''model''"]
    by (simp add: map_of_setitem)
qed

lemma aliyun_usage_ok:
  assumes "\<not> py_bool u \<or> (\<exists>d. u = PDict d)"
  shows "\<exists>usage. aliyun_usage u = Inr usage"
  using assms by (auto simp: aliyun_usage_def)

text \<open>
  C10, as the code has it. For the Aliyun provider, when the \<^verbatim>\<open>output\<close> of the
  payload is a dictionary with neither \<^verbatim>\<open>text\<close> nor \<^verbatim>\<open>choices\<close> (or is left
  out, which the code reads as the empty dictionary), and \<^verbatim>\<open>usage\<close> is left out,
  false as a condition, or a dictionary, normalization returns a result with the
  five keys of the unified format, in which \<^verbatim>\<open>choices\<close> is the empty list,
  \<^verbatim>\<open>id\<close> is the payload's \<^verbatim>\<open>request_id\<close> or else the generated one, and
  \<^verbatim>\<open>model\<close> is the \<^verbatim>\<open>model\<close> of the validated parameters: the model that
  was validated, when they come from the validator.
\<close>

theorem empty_output_gives_no_choices:
  assumes out: "map_of api_response ''output'' = Some (PDict out)
                \<or> map_of api_response ''output'' = None \<and> out = []"
    and no_text: "\<not> has_key out ''text''"
    and no_choices: "\<not> has_key out ''choices''"
    and us: "\<forall>u. map_of api_response ''usage'' = Some u
                  \<longrightarrow> \<not> py_bool u \<or> (\<exists>d. u = PDict d)"
  shows "\<exists>r. format_response uuid now api_response validated = Inr r
           \<and> map fst r = [''id'', ''model'', ''created'', ''choices'', ''usage'']
           \<and> map_of r ''choices'' = Some (PList [])
           \<and> map_of r ''id'' =
               Some (case map_of api_response ''request_id'' of
                       Some i \<Rightarrow> i | None \<Rightarrow> PStr uuid)
           \<and> map_of r ''model'' =
               Some (case map_of validated ''model'' of Some m \<Rightarrow> m | None \<Rightarrow> PStr [])
           \<and> (\<forall>bi cfg model ps.
                 aliyun_validate_parameters bi cfg model ps = Inr validated
                 \<longrightarrow> map_of r ''model'' = Some (PStr model))"
proof -
  have o: "get_or api_response ''output'' (PDict []) = PDict out"
    using out by (auto simp: get_or_def)
  have c: "aliyun_choices (PDict out) = Inr []"
    using no_text no_choices by (simp add: aliyun_choices_def)
  have "\<not> py_bool (get_or api_response ''usage'' (PDict []))
        \<or> (\<exists>d. get_or api_response ''usage'' (PDict []) = PDict d)"
    using us by (cases "map_of api_response ''usage''") (simp_all add: get_or_def)
  then obtain u where u: "aliyun_usage (get_or api_response ''usage'' (PDict [])) = Inr u"
    using aliyun_usage_ok by blast
  have r: "format_response uuid now api_response validated
        = Inr [(''id'', get_or api_response ''request_id'' (PStr uuid)),
               (''model'', get_or validated ''model'' (PStr [])),
               (''created'', PStr now), (''choices'', PList []), (''usage'', u)]"
    by (simp add: format_response_def o c u setitem_def)
  show ?thesis
    unfolding r
    by (auto simp: get_or_def dest: aliyun_validated_model split: option.splits)
qed

theorem empty_output_gives_no_choices_witness:
  "(map_of [(''request_id'', PStr ''r-1''), (''output'', PDict [(''finish_reason'', PStr ''stop'')])]
      ''output'' = Some (PDict [(''finish_reason'', PStr ''stop'')])
    \<or> map_of [(''request_id'', PStr ''r-1''), (''output'', PDict [(''finish_reason'', PStr ''stop'')])]
         ''output'' = None \<and> [(''finish_reason'', PStr ''stop'')] = [])
   \<and> format_response ''0b5c'' ''2025-01-01 00:00:00''
        [(''request_id'', PStr ''r-1''), (''output'', PDict [(''finish_reason'', PStr ''stop'')])]
        [(''model'', PStr ''qwen-turbo''), (''messages'', PList [])]
      = Inr [(''id'', PStr ''r-1''), (''model'', PStr ''qwen-turbo''),
             (''created'', PStr ''2025-01-01 00:00:00''), (''choices'', PList []),
             (''usage'', PDict [])]"
proof -
  have a: "map_of [(''request_id'', PStr ''r-1''),
                   (''output'', PDict [(''finish_reason'', PStr ''stop'')])] ''output''
             = Some (PDict [(''finish_reason'', PStr ''stop'')])
           \<or> map_of [(''request_id'', PStr ''r-1''),
                      (''output'', PDict [(''finish_reason'', PStr ''stop'')])] ''output'' = None
              \<and> [(''finish_reason'', PStr ''stop'')] = []"
    by simp
  have b: "\<not> has_key [(''finish_reason'', PStr ''stop'')] ''text''"
    by (simp add: has_key_def)
  have c: "\<not> has_key [(''finish_reason'', PStr ''stop'')] ''choices''"
    by (simp add: has_key_def)
  have d: "\<forall>u. map_of [(''request_id'', PStr ''r-1''),
                        (''output'', PDict [(''finish_reason'', PStr ''stop'')])] ''usage'' = Some u
             \<longrightarrow> \<not> py_bool u \<or> (\<exists>d. u = PDict d)"
    by simp
  have e: "format_response ''0b5c'' ''2025-01-01 00:00:00''
        [(''request_id'', PStr ''r-1''), (''output'', PDict [(''finish_reason'', PStr ''stop'')])]
        [(''model'', PStr ''qwen-turbo''), (''messages'', PList [])]
      = Inr [(''id'', PStr ''r-1''), (''model'', PStr ''qwen-turbo''),
             (''created'', PStr ''2025-01-01 00:00:00''), (''choices'', PList []),
             (''usage'', PDict [])]"
    by (simp add: format_defs)
  from empty_output_gives_no_choices [OF a b c d, of "''0b5c''" "''2025-01-01 00:00:00''"
         "[(''model'', PStr ''qwen-turbo''), (''messages'', PList [])]"] a e
  show ?thesis
    by simp
qed

text \<open>
  The claim as stated fails: an output with neither \<^verbatim>\<open>text\<close> nor
  \<^verbatim>\<open>choices\<close> does not keep normalization from failing when \<^verbatim>\<open>usage\<close> is a
  number other than zero, which has no \<^verbatim>\<open>get\<close>.
\<close>

theorem empty_output_fails_counterexample:
  "format_response ''0b5c'' ''2025-01-01 00:00:00''
     [(''output'', PDict []), (''usage'', PInt 5)] [(''model'', PStr ''qwen-turbo'')]
   = Inl AttributeError"
  by (simp add: format_defs)

end
